theory Spec2Isabelle
  imports Complex_Main "HOL-Library.Char_ord" "HOL-Library.List_Lexorder"
begin

section \<open>Shared data model\<close>

text \<open>
  Distances are C++ \<^verbatim>\<open>double\<close>/\<^verbatim>\<open>float\<close> values; they are modelled as
  \<^typ>\<open>real\<close> (no NaN, no rounding).  A \<^verbatim>\<open>const LinkModel*\<close> is modelled by its
  address, a natural number; pointer equality is equality of addresses.
\<close>

type_synonym vec3 = "real \<times> real \<times> real"
type_synonym link = nat

text \<open>
  \<^verbatim>\<open>DistanceResultsData\<close> is declared in a header that is not part of the sources;
  the fields are the ones the two source files read and write.
\<close>

record DistanceResultsData =
  min_distance :: real
  nearest_points :: "vec3 \<times> vec3"
  link_name :: "string \<times> string"
  hasNearestPoints :: bool
  hasGradient :: bool
  gradient :: vec3

text \<open>
  Modelled from the spec: \<^verbatim>\<open>DistanceResultsData::update\<close> (declared in the missing header).
  Section 3 of the specification: "an update only replaces the stored entry when the new
  distance is strictly smaller".
\<close>

definition DistanceResultsData_update ::
  "DistanceResultsData \<Rightarrow> DistanceResultsData \<Rightarrow> DistanceResultsData" where
  "DistanceResultsData_update stored results =
     (if min_distance results < min_distance stored then results else stored)"

subsection \<open>\<^verbatim>\<open>std::map\<close> with string keys\<close>

text \<open>
  A \<^verbatim>\<open>std::map<std::string, T>\<close> is the list of its entries in iteration order
  (ascending keys).  \<^verbatim>\<open>find\<close> is a lookup, \<^verbatim>\<open>insert\<close> leaves the map alone when
  the key is present, and writing through an iterator changes the entry of that key.
\<close>

type_synonym 'v std_map = "(string \<times> 'v) list"

definition map_find :: "'v std_map \<Rightarrow> string \<Rightarrow> 'v option" where
  "map_find m k = map_of m k"

definition map_insert :: "string \<times> 'v \<Rightarrow> 'v std_map \<Rightarrow> 'v std_map" where
  "map_insert kv m = (if fst kv \<in> fst ` set m then m else insort_key fst kv m)"

definition map_modify :: "string \<Rightarrow> ('v \<Rightarrow> 'v) \<Rightarrow> 'v std_map \<Rightarrow> 'v std_map" where
  "map_modify k f m = map (\<lambda>(k', v). if k' = k then (k', f v) else (k', v)) m"

section \<open>collision_common.cpp: the narrow-phase distance callback\<close>

datatype BodyType = ROBOT_LINK | ROBOT_ATTACHED | WORLD_OBJECT

datatype AllowedCollision = NEVER | ALWAYS | CONDITIONAL

text \<open>
  The user data of an \<^verbatim>\<open>fcl::CollisionObject\<close>.  \<^verbatim>\<open>raw\<close> is \<^verbatim>\<open>ptr.raw\<close>, \<^verbatim>\<open>getID\<close> the
  result of \<^verbatim>\<open>getID()\<close>, \<^verbatim>\<open>obj_id\<close> what the callback reads as \<^verbatim>\<open>ptr.obj->id_\<close>,
  \<^verbatim>\<open>ptr_link\<close> is \<^verbatim>\<open>ptr.link\<close> (null is \<open>None\<close>), \<^verbatim>\<open>attached_link\<close> is
  \<^verbatim>\<open>ptr.ab->getAttachedLink()\<close> and \<^verbatim>\<open>touch_links\<close> is \<^verbatim>\<open>ptr.ab->getTouchLinks()\<close>.
\<close>

record CollisionGeometryData =
  body_type :: BodyType
  raw :: nat
  getID :: string
  obj_id :: string
  ptr_link :: "link option"
  attached_link :: "link option"
  touch_links :: "string set"

record DistanceRequest =
  group_name :: string
  active_components_only :: "link set option"
  acm :: "(string \<Rightarrow> string \<Rightarrow> AllowedCollision option) option"
  distance_threshold :: real
  global :: bool
  detailed :: bool
  verbose :: bool
  req_gradient :: bool

record DistanceResult =
  minimum_distance :: DistanceResultsData
  distance :: "DistanceResultsData std_map"
  collision :: bool

record DistanceData =
  req :: DistanceRequest
  res :: DistanceResult
  done_flag :: bool

text \<open>What \<^verbatim>\<open>fcl::distance\<close> writes into its \<^verbatim>\<open>fcl::DistanceResult\<close>.\<close>

record fcl_DistanceResult =
  fcl_min_distance :: real
  fcl_nearest_points :: "vec3 \<times> vec3"

text \<open>
  \<^verbatim>\<open>fcl::distance(o1, o2, fcl::DistanceRequest(detailed), fcl_result)\<close> is external: a
  function of the two objects, the \<^verbatim>\<open>detailed\<close> flag and the bound stored in
  \<^verbatim>\<open>fcl_result.min_distance\<close> before the call, giving the returned distance and the
  result structure.
\<close>

type_synonym fcl_distance =
  "CollisionGeometryData \<Rightarrow> CollisionGeometryData \<Rightarrow> bool \<Rightarrow> real \<Rightarrow> real \<times> fcl_DistanceResult"

definition sameObject :: "CollisionGeometryData \<Rightarrow> CollisionGeometryData \<Rightarrow> bool" where
  "sameObject cd1 cd2 = (body_type cd1 = body_type cd2 \<and> raw cd1 = raw cd2)"

text \<open>The link \<^verbatim>\<open>l1\<close> / \<^verbatim>\<open>l2\<close> of a geometry (null for a world object).\<close>

definition link_of :: "CollisionGeometryData \<Rightarrow> link option" where
  "link_of cd =
     (if body_type cd = ROBOT_LINK then ptr_link cd
      else if body_type cd = ROBOT_ATTACHED then attached_link cd
      else None)"

definition not_active :: "link set \<Rightarrow> link option \<Rightarrow> bool" where
  "not_active comps l = (case l of None \<Rightarrow> True | Some x \<Rightarrow> x \<notin> comps)"

text \<open>
  The block "If active components are specified": \<open>None\<close> is the early
  \<^verbatim>\<open>return false\<close>, otherwise the flags \<^verbatim>\<open>active1\<close> and \<^verbatim>\<open>active2\<close>.
\<close>

definition active_flags ::
  "DistanceRequest \<Rightarrow> CollisionGeometryData \<Rightarrow> CollisionGeometryData \<Rightarrow> (bool \<times> bool) option" where
  "active_flags rq cd1 cd2 =
     (case active_components_only rq of
        None \<Rightarrow> Some (True, True)
      | Some comps \<Rightarrow>
          (if not_active comps (link_of cd1) \<and> not_active comps (link_of cd2) then None
           else Some (\<not> not_active comps (link_of cd1), \<not> not_active comps (link_of cd2))))"

text \<open>The collision matrix and the touch links: the value of \<^verbatim>\<open>always_allow_collision\<close>.\<close>

definition always_allow_collision ::
  "DistanceRequest \<Rightarrow> CollisionGeometryData \<Rightarrow> CollisionGeometryData \<Rightarrow> bool" where
  "always_allow_collision rq cd1 cd2 =
     (let by_acm =
        (case acm rq of
           None \<Rightarrow> False
         | Some getAllowedCollision \<Rightarrow>
             (case getAllowedCollision (getID cd1) (getID cd2) of
                None \<Rightarrow> False
              | Some t \<Rightarrow> t = ALWAYS))
      in
      if body_type cd1 = ROBOT_LINK \<and> body_type cd2 = ROBOT_ATTACHED then
        (if getID cd1 \<in> touch_links cd2 then True else by_acm)
      else if body_type cd2 = ROBOT_LINK \<and> body_type cd1 = ROBOT_ATTACHED then
        (if getID cd2 \<in> touch_links cd1 then True else by_acm)
      else by_acm)"

text \<open>
  The selection of \<^verbatim>\<open>dist_threshold\<close>; \<open>it1\<close> and \<open>it2\<close> are the results of
  \<^verbatim>\<open>res->distance.find\<close> for the two object ids (\<open>None\<close> is \<^verbatim>\<open>end()\<close>).
\<close>

definition select_dist_threshold ::
  "DistanceRequest \<Rightarrow> DistanceResult \<Rightarrow> bool \<Rightarrow> bool \<Rightarrow>
   DistanceResultsData option \<Rightarrow> DistanceResultsData option \<Rightarrow> real" where
  "select_dist_threshold rq rs active1 active2 it1 it2 =
     (if \<not> global rq then
        (if active_components_only rq \<noteq> None then
           (if active1 \<and> active2 then
              (case (it1, it2) of
                 (Some e1, Some e2) \<Rightarrow> max (min_distance e1) (min_distance e2)
               | _ \<Rightarrow> distance_threshold rq)
            else if active1 \<and> \<not> active2 then
              (case it1 of Some e1 \<Rightarrow> min_distance e1 | None \<Rightarrow> distance_threshold rq)
            else if \<not> active1 \<and> active2 then
              (case it2 of Some e2 \<Rightarrow> min_distance e2 | None \<Rightarrow> distance_threshold rq)
            else distance_threshold rq)
         else
           (case (it1, it2) of
              (Some e1, Some e2) \<Rightarrow> max (min_distance e1) (min_distance e2)
            | _ \<Rightarrow> distance_threshold rq))
      else min_distance (minimum_distance rs))"

text \<open>
  The per-link write for one side: insert when the iterator found before the measurement
  was \<^verbatim>\<open>end()\<close>, otherwise \<^verbatim>\<open>update\<close> through the iterator.
\<close>

definition write_side ::
  "bool \<Rightarrow> DistanceResultsData option \<Rightarrow> string \<Rightarrow> DistanceResultsData \<Rightarrow>
   DistanceResultsData std_map \<Rightarrow> DistanceResultsData std_map" where
  "write_side active it k dist_result m =
     (if active then
        (case it of
           None \<Rightarrow> map_insert (k, dist_result) m
         | Some _ \<Rightarrow> map_modify k (\<lambda>e. DistanceResultsData_update e dist_result) m)
      else m)"

text \<open>The body of \<^verbatim>\<open>if (d < dist_threshold)\<close>.\<close>

definition record_distance ::
  "DistanceData \<Rightarrow> bool \<Rightarrow> bool \<Rightarrow> DistanceResultsData option \<Rightarrow> DistanceResultsData option \<Rightarrow>
   string \<Rightarrow> string \<Rightarrow> real \<Rightarrow> DistanceResultsData \<Rightarrow> DistanceData" where
  "record_distance cdata active1 active2 it1 it2 id1 id2 d dist_result =
     (let rs = res cdata;
          rs1 = rs\<lparr>minimum_distance := DistanceResultsData_update (minimum_distance rs) dist_result\<rparr>
      in
      if \<not> global (req cdata) then
        (let rs2 = (if d \<le> 0 \<and> \<not> collision rs1 then rs1\<lparr>collision := True\<rparr> else rs1);
             m1 = write_side active1 it1 id1 dist_result (distance rs2);
             m2 = write_side active2 it2 id2 dist_result m1
         in cdata\<lparr>res := rs2\<lparr>distance := m2\<rparr>\<rparr>)
      else
        (if d \<le> 0 then cdata\<lparr>res := rs1\<lparr>collision := True\<rparr>, done_flag := True\<rparr>
         else cdata\<lparr>res := rs1\<rparr>))"

text \<open>
  The part of \<^verbatim>\<open>distanceDetailedCallback\<close> before the call of \<^verbatim>\<open>fcl::distance\<close>:
  \<open>None\<close> when the pair is rejected by one of the early \<^verbatim>\<open>return false\<close>, otherwise
  \<^verbatim>\<open>active1\<close>, \<^verbatim>\<open>active2\<close>, the iterators \<^verbatim>\<open>it1\<close>, \<^verbatim>\<open>it2\<close> and \<^verbatim>\<open>dist_threshold\<close>, the
  value stored in \<^verbatim>\<open>fcl_result.min_distance\<close> for the measurement.  The iterators are
  assigned in per-link mode only; in global-only mode they are never read and are \<open>None\<close>
  here.
\<close>

definition measurement_request ::
  "DistanceData \<Rightarrow> CollisionGeometryData \<Rightarrow> CollisionGeometryData \<Rightarrow>
   (bool \<times> bool \<times> DistanceResultsData option \<times> DistanceResultsData option \<times> real) option" where
  "measurement_request cdata cd1 cd2 =
     (if sameObject cd1 cd2 then None
      else
        (case active_flags (req cdata) cd1 cd2 of
           None \<Rightarrow> None
         | Some (active1, active2) \<Rightarrow>
             if always_allow_collision (req cdata) cd1 cd2 then None
             else
               (let it1 = (if \<not> global (req cdata)
                           then map_find (distance (res cdata)) (obj_id cd1) else None);
                    it2 = (if \<not> global (req cdata)
                           then map_find (distance (res cdata)) (obj_id cd2) else None)
                in Some (active1, active2, it1, it2,
                     select_dist_threshold (req cdata) (res cdata) active1 active2 it1 it2))))"

text \<open>
  \<^verbatim>\<open>distanceDetailedCallback(o1, o2, data, min_dist)\<close>: the new \<^verbatim>\<open>DistanceData\<close> and the
  returned flag.  \<open>dflt\<close> is the default-constructed \<^verbatim>\<open>DistanceResultsData dist_result\<close>
  (its constructor is in the missing header); the debug log lines are left out.
\<close>

definition distanceDetailedCallback ::
  "DistanceResultsData \<Rightarrow> fcl_distance \<Rightarrow> CollisionGeometryData \<Rightarrow> CollisionGeometryData \<Rightarrow>
   DistanceData \<Rightarrow> DistanceData \<times> bool" where
  "distanceDetailedCallback dflt fcl cd1 cd2 cdata =
     (case measurement_request cdata cd1 cd2 of
        None \<Rightarrow> (cdata, False)
      | Some (active1, active2, it1, it2, dist_threshold) \<Rightarrow>
          (let (d, fcl_result) = fcl cd1 cd2 (detailed (req cdata)) dist_threshold in
           if d < dist_threshold then
             (let dist_result = dflt
                    \<lparr>min_distance := fcl_min_distance fcl_result,
                     nearest_points := fcl_nearest_points fcl_result,
                     link_name := (obj_id cd1, obj_id cd2)\<rparr>;
                  cdata' = record_distance cdata active1 active2 it1 it2
                             (obj_id cd1) (obj_id cd2) d dist_result
              in (cdata', done_flag cdata'))
           else (cdata, done_flag cdata)))"

text \<open>
  The broad phase hands candidate pairs to the callback one after the other and stops as
  soon as the callback returns true.
\<close>

fun process_pairs ::
  "DistanceResultsData \<Rightarrow> fcl_distance \<Rightarrow> (CollisionGeometryData \<times> CollisionGeometryData) list \<Rightarrow>
   DistanceData \<Rightarrow> DistanceData" where
  "process_pairs dflt fcl [] cdata = cdata"
| "process_pairs dflt fcl ((cd1, cd2) # ps) cdata =
     (case distanceDetailedCallback dflt fcl cd1 cd2 cdata of
        (cdata', stop) \<Rightarrow> if stop then cdata' else process_pairs dflt fcl ps cdata')"

text \<open>
  \<^verbatim>\<open>getDistanceInfo(distance_detailed, distance_info_map, tf)\<close>.  \<^verbatim>\<open>DistanceInfo\<close> is declared
  in the missing header; its field \<^verbatim>\<open>distance\<close> is named \<open>info_distance\<close> here.
\<close>

record DistanceInfo =
  nearest_obsticle :: string
  link_point :: vec3
  obsticle_point :: vec3
  avoidance_vector :: vec3
  info_distance :: real

definition vec_sub :: "vec3 \<Rightarrow> vec3 \<Rightarrow> vec3" where
  "vec_sub a b = (case a of (ax, ay, az) \<Rightarrow> case b of (bx, by, bz) \<Rightarrow> (ax - bx, ay - by, az - bz))"

definition vec_add :: "vec3 \<Rightarrow> vec3 \<Rightarrow> vec3" where
  "vec_add a b = (case a of (ax, ay, az) \<Rightarrow> case b of (bx, by, bz) \<Rightarrow> (ax + bx, ay + by, az + bz))"

definition vec_scale :: "vec3 \<Rightarrow> real \<Rightarrow> vec3" where
  "vec_scale a c = (case a of (ax, ay, az) \<Rightarrow> (ax * c, ay * c, az * c))"

definition squaredNorm :: "vec3 \<Rightarrow> real" where
  "squaredNorm a = (case a of (ax, ay, az) \<Rightarrow> ax * ax + ay * ay + az * az)"

definition vec_norm :: "vec3 \<Rightarrow> real" where
  "vec_norm a = sqrt (squaredNorm a)"

text \<open>
  Eigen's \<^verbatim>\<open>normalize()\<close> (external): the vector divided by its norm; a vector of squared
  norm zero is left as it is (Eigen 3.3; older versions divide by zero and give NaN
  components, which a \<^typ>\<open>real\<close> cannot hold).
\<close>

definition eigen_normalize :: "vec3 \<Rightarrow> vec3" where
  "eigen_normalize a = (if squaredNorm a > 0 then vec_scale a (1 / sqrt (squaredNorm a)) else a)"

text \<open>
  One iteration of the loop of \<^verbatim>\<open>getDistanceInfo\<close>: \<open>dflt\<close> is the default-constructed
  \<^verbatim>\<open>DistanceInfo dist_info\<close>, \<open>tf\<close> the application of the transform to a point.  The state
  is the status flag, the output map and the \<^verbatim>\<open>ROS_ERROR\<close> lines written so far.
\<close>

definition getDistanceInfo_step ::
  "DistanceInfo \<Rightarrow> (vec3 \<Rightarrow> vec3) \<Rightarrow> string \<times> DistanceResultsData \<Rightarrow>
   bool \<times> DistanceInfo std_map \<times> string list \<Rightarrow> bool \<times> DistanceInfo std_map \<times> string list" where
  "getDistanceInfo_step dflt tf it st =
     (case st of (status, distance_info_map, ros_log) \<Rightarrow>
        (let dist = snd it in
         if fst (link_name dist) = fst it then
           (let lp = tf (fst (nearest_points dist));
                obp = tf (snd (nearest_points dist));
                dist_info = dflt
                  \<lparr>nearest_obsticle := snd (link_name dist), link_point := lp, obsticle_point := obp,
                   avoidance_vector := eigen_normalize (vec_sub lp obp),
                   info_distance := min_distance dist\<rparr>
            in (status, map_insert (fst it, dist_info) distance_info_map, ros_log))
         else if snd (link_name dist) = fst it then
           (let lp = tf (snd (nearest_points dist));
                obp = tf (fst (nearest_points dist));
                dist_info = dflt
                  \<lparr>nearest_obsticle := fst (link_name dist), link_point := lp, obsticle_point := obp,
                   avoidance_vector := eigen_normalize (vec_sub lp obp),
                   info_distance := min_distance dist\<rparr>
            in (status, map_insert (fst it, dist_info) distance_info_map, ros_log))
         else
           (False, map_insert (fst it, dflt) distance_info_map,
            ros_log @ [''getDistanceInfo was unable to find link after match!''])))"

definition getDistanceInfo ::
  "DistanceInfo \<Rightarrow> (vec3 \<Rightarrow> vec3) \<Rightarrow> DistanceResultsData std_map \<Rightarrow> DistanceInfo std_map \<Rightarrow>
   bool \<times> DistanceInfo std_map \<times> string list" where
  "getDistanceInfo dflt tf distance_detailed distance_info_map =
     fold (getDistanceInfo_step dflt tf) distance_detailed (True, distance_info_map, [])"

section \<open>The kinematic model (external)\<close>

record JointModelGroup =
  group_getName :: string
  getLinkModels :: "link list"
  getUpdatedLinkModelsWithGeometrySet :: "link set"

text \<open>
  What the two files read of a \<^verbatim>\<open>RobotModel\<close>.  \<open>associated_fixed_transforms\<close> gives, for
  a link, the keys of its \<^verbatim>\<open>getAssociatedFixedTransforms()\<close> map in iteration order.
\<close>

record robot_model =
  getRootLink :: link
  getLinkModelsWithCollisionGeometry :: "link list"
  getJointModelGroups :: "JointModelGroup list"
  associated_fixed_transforms :: "(link \<times> link list) list"
  getName :: "link \<Rightarrow> string"
  getDisabledCollisionPairs :: "(string \<times> string) list"

definition getAssociatedFixedTransforms :: "robot_model \<Rightarrow> link \<Rightarrow> link list" where
  "getAssociatedFixedTransforms m l =
     (case map_of (associated_fixed_transforms m) l of None \<Rightarrow> [] | Some cs \<Rightarrow> cs)"

text \<open>\<^verbatim>\<open>getJointModelGroup(name)\<close>: \<open>None\<close> is the null pointer returned for an unknown name.\<close>

definition getJointModelGroup :: "robot_model \<Rightarrow> string \<Rightarrow> JointModelGroup option" where
  "getJointModelGroup m name = find (\<lambda>g. group_getName g = name) (getJointModelGroups m)"

definition hasJointModelGroup :: "robot_model \<Rightarrow> string \<Rightarrow> bool" where
  "hasJointModelGroup m name = (getJointModelGroup m name \<noteq> None)"

text \<open>\<^verbatim>\<open>DistanceRequest::enableGroup\<close> (collision_common.cpp).\<close>

definition enableGroup :: "robot_model \<Rightarrow> DistanceRequest \<Rightarrow> DistanceRequest" where
  "enableGroup kmodel rq =
     (if hasJointModelGroup kmodel (group_name rq) then
        rq\<lparr>active_components_only :=
             map_option getUpdatedLinkModelsWithGeometrySet (getJointModelGroup kmodel (group_name rq))\<rparr>
      else rq\<lparr>active_components_only := None\<rparr>)"

section \<open>collision_robot_openvdb.cpp: construction\<close>

text \<open>The operations of the file whose behaviour C++ leaves undefined.\<close>

datatype error =
  EraseAtEnd  \<comment> \<open>\<^verbatim>\<open>vector::erase\<close> called with \<^verbatim>\<open>end()\<close>\<close>
  | NullGroupDereference  \<comment> \<open>a member call through a null \<^verbatim>\<open>JointModelGroup*\<close>\<close>
  | MapBeginAtEnd  \<comment> \<open>\<^verbatim>\<open>begin()\<close> of an empty map dereferenced\<close>
  | IndexOutOfRange  \<comment> \<open>\<^verbatim>\<open>operator[]\<close> of a vector past its size\<close>

type_synonym sphere = "vec3 \<times> real"

datatype LinkType = Static | Dynamic | Active

record DistanceQueryData =
  parent_name :: string
  child_name :: "string list"
  child_index :: "nat list"
  child_type :: "LinkType list"
  spheres :: "sphere list"
  q_gradient :: bool
  empty :: bool

text \<open>
  The members of \<^verbatim>\<open>CollisionRobotOpenVDB\<close>.  A distance field is external; of
  \<^verbatim>\<open>active_sdf_\<close> the model keeps the voxel size each field was built with (\<open>None\<close> is a
  null pointer), and \<^verbatim>\<open>static_sdf_\<close> and \<^verbatim>\<open>dynamic_sdf_\<close>, which run parallel to the link
  vectors, are left out.  \<open>ros_errors\<close> collects the \<^verbatim>\<open>ROS_ERROR\<close> lines.
\<close>

record CollisionRobotOpenVDB =
  robot_model_' :: robot_model
  voxel_size_' :: real
  background_' :: real
  exBandWidth_' :: real
  inBandWidth_' :: real
  links_' :: "link list"
  static_links_' :: "link list"
  active_links_' :: "link list"
  dynamic_links_' :: "link list"
  active_sdf_' :: "real option list"
  active_spheres_' :: "sphere list list"
  dist_query_' :: "DistanceQueryData list"
  acm_' :: "(string \<Rightarrow> string \<Rightarrow> AllowedCollision option) option"
  ros_errors :: "string list"

text \<open>All links that occur in some map of associated fixed transforms: a finite set.\<close>

definition fixed_universe :: "robot_model \<Rightarrow> link set" where
  "fixed_universe m = \<Union> (set ` snd ` set (associated_fixed_transforms m))"

definition walk_measure ::
  "robot_model \<times> link list \<times> link list \<times> (link list \<times> link list) \<Rightarrow> nat" where
  "walk_measure = (\<lambda>(m, geom, cs, s). card ((fixed_universe m \<union> set cs) - set (snd s)))"

text \<open>
  The loop of \<^verbatim>\<open>addAssociatedFixedTransforms\<close> over the rest \<open>cs\<close> of the map
  \<^verbatim>\<open>fixed_attached\<close>, with the recursive call.  The state is \<^verbatim>\<open>static_links_\<close> and the
  reference parameter \<^verbatim>\<open>links_so_far\<close>; \<open>geom\<close> is \<^verbatim>\<open>links_\<close>.
\<close>

function addAssociatedFixedTransforms_loop ::
  "robot_model \<Rightarrow> link list \<Rightarrow> link list \<Rightarrow> link list \<times> link list \<Rightarrow> link list \<times> link list" where
  "addAssociatedFixedTransforms_loop m geom [] s = s"
| "addAssociatedFixedTransforms_loop m geom (c # cs) (static, links_so_far) =
     (if c \<in> set links_so_far then addAssociatedFixedTransforms_loop m geom cs (static, links_so_far)
      else addAssociatedFixedTransforms_loop m geom cs
             (addAssociatedFixedTransforms_loop m geom (getAssociatedFixedTransforms m c)
                (if c \<in> set geom then static @ [c] else static, links_so_far @ [c])))"
  by pat_completeness auto

lemma finite_fixed_universe: "finite (fixed_universe m)"
  by (simp add: fixed_universe_def)

lemma fixed_in_universe: "set (getAssociatedFixedTransforms m l) \<subseteq> fixed_universe m"
proof (cases "map_of (associated_fixed_transforms m) l")
  case None
  then show ?thesis by (simp add: getAssociatedFixedTransforms_def)
next
  case (Some cs)
  then have "(l, cs) \<in> set (associated_fixed_transforms m)" by (rule map_of_SomeD)
  then have "set cs \<subseteq> fixed_universe m"
    unfolding fixed_universe_def by force
  then show ?thesis using Some by (simp add: getAssociatedFixedTransforms_def)
qed

lemma walk_measure_skip:
  assumes "c \<in> set links_so_far"
  shows "((m, geom, cs, static, links_so_far), (m, geom, c # cs, static, links_so_far))
           \<in> walk_measure <*mlex*> measure (\<lambda>(m, geom, cs, s). length cs)"
proof -
  have "(fixed_universe m \<union> set cs) - set links_so_far
          = (fixed_universe m \<union> set (c # cs)) - set links_so_far"
    using assms by auto
  then show ?thesis by (simp add: mlex_iff walk_measure_def)
qed

lemma walk_measure_descend:
  assumes "c \<notin> set links_so_far"
  shows "((m, geom, getAssociatedFixedTransforms m c, static', links_so_far @ [c]),
          (m, geom, c # cs, static, links_so_far))
           \<in> walk_measure <*mlex*> measure (\<lambda>(m, geom, cs, s). length cs)"
proof -
  let ?A = "(fixed_universe m \<union> set (getAssociatedFixedTransforms m c)) - set (links_so_far @ [c])"
  let ?B = "(fixed_universe m \<union> set (c # cs)) - set links_so_far"
  have "?A \<subseteq> ?B - {c}" using fixed_in_universe[of m c] by auto
  moreover have "c \<in> ?B" using assms by simp
  ultimately have "?A \<subset> ?B" by blast
  moreover have "finite ?B" by (simp add: finite_fixed_universe)
  ultimately have "card ?A < card ?B" by (rule psubset_card_mono[rotated])
  then show ?thesis by (simp add: mlex_iff walk_measure_def)
qed

lemma walk_measure_continue:
  assumes "set (links_so_far @ [c]) \<subseteq> set (snd r)"
  shows "((m, geom, cs, r), (m, geom, c # cs, static, links_so_far))
           \<in> walk_measure <*mlex*> measure (\<lambda>(m, geom, cs, s). length cs)"
proof -
  let ?A = "(fixed_universe m \<union> set cs) - set (snd r)"
  let ?B = "(fixed_universe m \<union> set (c # cs)) - set links_so_far"
  have "?A \<subseteq> ?B" using assms by auto
  moreover have "finite ?B" by (simp add: finite_fixed_universe)
  ultimately have "card ?A \<le> card ?B" by (rule card_mono[rotated])
  then show ?thesis by (auto simp add: mlex_iff walk_measure_def split: prod.splits)
qed

lemma addAssociatedFixedTransforms_loop_grows:
  "addAssociatedFixedTransforms_loop_dom (m, geom, cs, s) \<Longrightarrow>
   set (snd s) \<subseteq> set (snd (addAssociatedFixedTransforms_loop m geom cs s))"
proof (induction m geom cs s rule: addAssociatedFixedTransforms_loop.pinduct)
  case (1 m geom s)
  then show ?case by (simp add: addAssociatedFixedTransforms_loop.psimps)
next
  case (2 m geom c cs static links_so_far)
  then show ?case
    by (cases "c \<in> set links_so_far") (auto simp add: addAssociatedFixedTransforms_loop.psimps)
qed

termination addAssociatedFixedTransforms_loop
proof (relation "walk_measure <*mlex*> measure (\<lambda>(m, geom, cs, s). length cs)")
  show "wf (walk_measure <*mlex*> measure (\<lambda>(m, geom, cs, s). length cs))"
    by (simp add: wf_mlex)
next
  fix m :: robot_model and geom cs static links_so_far :: "link list" and c :: link
  assume "c \<in> set links_so_far"
  then show "((m, geom, cs, static, links_so_far), (m, geom, c # cs, static, links_so_far))
        \<in> walk_measure <*mlex*> measure (\<lambda>(m, geom, cs, s). length cs)"
    by (rule walk_measure_skip)
next
  fix m :: robot_model and geom cs static links_so_far :: "link list" and c :: link
  assume "c \<notin> set links_so_far"
  then show "((m, geom, getAssociatedFixedTransforms m c,
          if c \<in> set geom then static @ [c] else static, links_so_far @ [c]),
         (m, geom, c # cs, static, links_so_far))
        \<in> walk_measure <*mlex*> measure (\<lambda>(m, geom, cs, s). length cs)"
    by (rule walk_measure_descend)
next
  fix m :: robot_model and geom cs static links_so_far :: "link list" and c :: link
  assume "addAssociatedFixedTransforms_loop_dom
        (m, geom, getAssociatedFixedTransforms m c,
         if c \<in> set geom then static @ [c] else static, links_so_far @ [c])"
  then have "set (links_so_far @ [c])
      \<subseteq> set (snd (addAssociatedFixedTransforms_loop m geom (getAssociatedFixedTransforms m c)
             (if c \<in> set geom then static @ [c] else static, links_so_far @ [c])))"
    using addAssociatedFixedTransforms_loop_grows by fastforce
  then show "((m, geom, cs,
          addAssociatedFixedTransforms_loop m geom (getAssociatedFixedTransforms m c)
            (if c \<in> set geom then static @ [c] else static, links_so_far @ [c])),
         (m, geom, c # cs, static, links_so_far))
        \<in> walk_measure <*mlex*> measure (\<lambda>(m, geom, cs, s). length cs)"
    by (rule walk_measure_continue)
qed

text \<open>
  \<^verbatim>\<open>addAssociatedFixedTransforms(link, links_so_far)\<close>: the new \<^verbatim>\<open>static_links_\<close> and the
  new \<^verbatim>\<open>links_so_far\<close>.
\<close>

definition addAssociatedFixedTransforms ::
  "CollisionRobotOpenVDB \<Rightarrow> link \<Rightarrow> link list \<Rightarrow> CollisionRobotOpenVDB \<times> link list" where
  "addAssociatedFixedTransforms obj l links_so_far =
     (case addAssociatedFixedTransforms_loop (robot_model_' obj) (links_' obj)
             (getAssociatedFixedTransforms (robot_model_' obj) l) (static_links_' obj, links_so_far) of
        (static, so_far) \<Rightarrow> (obj\<lparr>static_links_' := static\<rparr>, so_far))"

definition createStaticSDFs :: "CollisionRobotOpenVDB \<Rightarrow> CollisionRobotOpenVDB" where
  "createStaticSDFs obj =
     (let root_link = getRootLink (robot_model_' obj);
          obj1 = (if root_link \<in> set (links_' obj)
                  then obj\<lparr>static_links_' := static_links_' obj @ [root_link]\<rparr> else obj)
      in fst (addAssociatedFixedTransforms obj1 root_link []))"

text \<open>
  The first loop of \<^verbatim>\<open>createActiveSDFs\<close>: the links of all groups that have collision
  geometry, each once, in the order they are met.
\<close>

definition collect_active_links :: "JointModelGroup list \<Rightarrow> link list \<Rightarrow> link list \<Rightarrow> link list" where
  "collect_active_links groups geom active =
     fold (\<lambda>g acc. fold (\<lambda>l acc. if l \<notin> set acc \<and> l \<in> set geom then acc @ [l] else acc)
                        (getLinkModels g) acc)
          groups active"

text \<open>
  \<^verbatim>\<open>sdf->addLinkToField\<close> followed by \<^verbatim>\<open>sdf->fillWithSpheres(active_spheres_[i], ...)\<close> is
  external: a function of the link, the voxel size of the field, the two band widths and
  the content of the output vector before the call, giving its content after the call.
\<close>

type_synonym fillWithSpheres = "link \<Rightarrow> real \<Rightarrow> real \<Rightarrow> real \<Rightarrow> sphere list \<Rightarrow> sphere list"

text \<open>
  The loop \<^verbatim>\<open>for (j = 0; j < 10; ++j)\<close> with \<open>n\<close> iterations left: \<open>v\<close> is the voxel size
  of the next attempt, \<open>sdf\<close> the field built last and \<open>sp\<close> the vector
  \<^verbatim>\<open>active_spheres_[i]\<close>.
\<close>

fun sphere_fit_loop ::
  "nat \<Rightarrow> (real \<Rightarrow> sphere list \<Rightarrow> sphere list) \<Rightarrow> real \<Rightarrow> real option \<Rightarrow> sphere list \<Rightarrow>
   real option \<times> sphere list" where
  "sphere_fit_loop 0 fill v sdf sp = (sdf, sp)"
| "sphere_fit_loop (Suc n) fill v sdf sp =
     (let sp' = fill v sp in
      if length sp' > 1 then (Some v, sp') else sphere_fit_loop n fill (v * 0.5) (Some v) sp')"

definition resize :: "nat \<Rightarrow> 'a \<Rightarrow> 'a list \<Rightarrow> 'a list" where
  "resize n d xs = take n xs @ replicate (n - length xs) d"

text \<open>The body of the second loop of \<^verbatim>\<open>createActiveSDFs\<close> for the index \<open>i\<close>.\<close>

definition fit_active_link :: "fillWithSpheres \<Rightarrow> nat \<Rightarrow> CollisionRobotOpenVDB \<Rightarrow> CollisionRobotOpenVDB" where
  "fit_active_link fws i obj =
     (let l = active_links_' obj ! i;
          fill = (\<lambda>v. fws l v ((voxel_size_' obj / v) * exBandWidth_' obj)
                                ((voxel_size_' obj / v) * inBandWidth_' obj));
          (sdf, sp) = sphere_fit_loop 10 fill (voxel_size_' obj) None (active_spheres_' obj ! i)
      in obj\<lparr>active_spheres_' := (active_spheres_' obj)[i := sp],
              ros_errors := ros_errors obj @
                (if length sp = 0
                 then [''Unable to generate spheres for link: '' @ getName (robot_model_' obj) l]
                 else []),
              active_sdf_' := (active_sdf_' obj)[i := sdf]\<rparr>)"

definition createActiveSDFs :: "fillWithSpheres \<Rightarrow> CollisionRobotOpenVDB \<Rightarrow> CollisionRobotOpenVDB" where
  "createActiveSDFs fws obj =
     (let active = collect_active_links (getJointModelGroups (robot_model_' obj)) (links_' obj)
                     (active_links_' obj);
          obj1 = obj\<lparr>active_links_' := active,
                     active_sdf_' := resize (length active) None (active_sdf_' obj),
                     active_spheres_' := resize (length active) [] (active_spheres_' obj)\<rparr>
      in fold (fit_active_link fws) [0..<length active] obj1)"

text \<open>
  \<^verbatim>\<open>v.erase(std::remove(v.begin(), v.end(), x))\<close>: \<^verbatim>\<open>std::remove\<close> moves the elements other
  than \<open>x\<close> to the front and returns the end of that range, and the one-argument
  \<^verbatim>\<open>erase\<close> removes the single element at that position.  When \<open>x\<close> does not occur the
  position is \<^verbatim>\<open>end()\<close> and the \<^verbatim>\<open>erase\<close> is undefined.  What is behind the erased
  position (only when \<open>x\<close> occurs more than once) stays.
\<close>

definition erase_remove :: "link \<Rightarrow> link list \<Rightarrow> error + link list" where
  "erase_remove x v =
     (if x \<notin> set v then Inl EraseAtEnd
      else Inr (removeAll x v @ drop (Suc (length (removeAll x v))) v))"

fun erase_remove_all :: "link list \<Rightarrow> link list \<Rightarrow> error + link list" where
  "erase_remove_all [] v = Inr v"
| "erase_remove_all (x # xs) v =
     (case erase_remove x v of Inl e \<Rightarrow> Inl e | Inr v' \<Rightarrow> erase_remove_all xs v')"

definition createDynamicSDFs :: "CollisionRobotOpenVDB \<Rightarrow> error + CollisionRobotOpenVDB" where
  "createDynamicSDFs obj =
     (case erase_remove_all (static_links_' obj) (links_' obj) of
        Inl e \<Rightarrow> Inl e
      | Inr d1 \<Rightarrow>
          (case erase_remove_all (active_links_' obj) d1 of
             Inl e \<Rightarrow> Inl e
           | Inr d2 \<Rightarrow> Inr (obj\<lparr>dynamic_links_' := d2\<rparr>)))"

text \<open>
  \<^verbatim>\<open>createDefaultAllowedCollisionMatrix\<close>.  The matrix is external; an entry set later
  replaces the one set before, and \<^verbatim>\<open>setEntry\<close> is symmetric.
\<close>

definition createDefaultAllowedCollisionMatrix :: "CollisionRobotOpenVDB \<Rightarrow> CollisionRobotOpenVDB" where
  "createDefaultAllowedCollisionMatrix obj =
     (let collision_links = map (getName (robot_model_' obj))
                              (getLinkModelsWithCollisionGeometry (robot_model_' obj));
          dc = getDisabledCollisionPairs (robot_model_' obj)
      in obj\<lparr>acm_' := Some (\<lambda>a b.
              if (a, b) \<in> set dc \<or> (b, a) \<in> set dc then Some ALWAYS
              else if a \<in> set collision_links \<and> b \<in> set collision_links then Some NEVER
              else None)\<rparr>)"

definition isCollisionAllowed ::
  "string \<Rightarrow> string \<Rightarrow> (string \<Rightarrow> string \<Rightarrow> AllowedCollision option) option \<Rightarrow> bool" where
  "isCollisionAllowed l1 l2 a =
     (case a of
        None \<Rightarrow> False
      | Some getAllowedCollision \<Rightarrow>
          (case getAllowedCollision l1 l2 of None \<Rightarrow> False | Some t \<Rightarrow> t = ALWAYS))"

text \<open>
  The three loops of \<^verbatim>\<open>createDefaultDistanceQuery\<close> that fill the parallel vectors
  \<^verbatim>\<open>child_name\<close>, \<^verbatim>\<open>child_index\<close> and \<^verbatim>\<open>child_type\<close> for the active link \<open>j\<close>.
\<close>

definition query_children :: "CollisionRobotOpenVDB \<Rightarrow> nat \<Rightarrow> (string \<times> nat \<times> LinkType) list" where
  "query_children obj j =
     (let nm = getName (robot_model_' obj); pj = nm (active_links_' obj ! j) in
      [(nm (active_links_' obj ! i), i, Active).
         i \<leftarrow> [0..<length (active_links_' obj)],
         i \<noteq> j \<and> \<not> isCollisionAllowed (nm (active_links_' obj ! i)) pj (acm_' obj)] @
      [(nm (dynamic_links_' obj ! i), i, Dynamic).
         i \<leftarrow> [0..<length (dynamic_links_' obj)],
         \<not> isCollisionAllowed (nm (dynamic_links_' obj ! i)) pj (acm_' obj)] @
      [(nm (static_links_' obj ! i), i, Static).
         i \<leftarrow> [0..<length (static_links_' obj)],
         \<not> isCollisionAllowed (nm (static_links_' obj ! i)) pj (acm_' obj)])"

text \<open>
  Modelled from the spec: the default-constructed \<^verbatim>\<open>DistanceQueryData\<close> (declared in the
  missing header).  Section 4.3: a body with an empty approximation "is excluded from
  subsequent self-distance queries", so \<^verbatim>\<open>empty\<close> starts as true.
\<close>

definition default_DistanceQueryData :: DistanceQueryData where
  "default_DistanceQueryData =
     \<lparr>parent_name = [], child_name = [], child_index = [], child_type = [], spheres = [],
      q_gradient = False, empty = True\<rparr>"

definition query_entry :: "CollisionRobotOpenVDB \<Rightarrow> nat \<Rightarrow> error + DistanceQueryData" where
  "query_entry obj j =
     (let data = default_DistanceQueryData
                   \<lparr>parent_name := getName (robot_model_' obj) (active_links_' obj ! j)\<rparr>
      in
      if j \<ge> length (active_spheres_' obj) then Inl IndexOutOfRange
      else if length (active_spheres_' obj ! j) = 0 then Inr data
      else
        (let cs = query_children obj j in
         Inr (data\<lparr>empty := False, child_name := map fst cs,
                    child_index := map (fst \<circ> snd) cs, child_type := map (snd \<circ> snd) cs\<rparr>)))"

fun createDefaultDistanceQuery_loop ::
  "nat list \<Rightarrow> CollisionRobotOpenVDB \<Rightarrow> error + CollisionRobotOpenVDB" where
  "createDefaultDistanceQuery_loop [] obj = Inr obj"
| "createDefaultDistanceQuery_loop (j # js) obj =
     (case query_entry obj j of
        Inl e \<Rightarrow> Inl e
      | Inr data \<Rightarrow> createDefaultDistanceQuery_loop js (obj\<lparr>dist_query_' := dist_query_' obj @ [data]\<rparr>))"

definition createDefaultDistanceQuery :: "CollisionRobotOpenVDB \<Rightarrow> error + CollisionRobotOpenVDB" where
  "createDefaultDistanceQuery obj =
     createDefaultDistanceQuery_loop [0..<length (active_links_' obj)] obj"

text \<open>The object after the member initialiser list of the first constructor.\<close>

definition initial_object :: "robot_model \<Rightarrow> real \<Rightarrow> real \<Rightarrow> real \<Rightarrow> real \<Rightarrow> CollisionRobotOpenVDB" where
  "initial_object model voxel_size background exBandWidth inBandWidth =
     \<lparr>robot_model_' = model, voxel_size_' = voxel_size, background_' = background,
      exBandWidth_' = exBandWidth, inBandWidth_' = inBandWidth,
      links_' = getLinkModelsWithCollisionGeometry model,
      static_links_' = [], active_links_' = [], dynamic_links_' = [],
      active_sdf_' = [], active_spheres_' = [], dist_query_' = [],
      acm_' = None, ros_errors = []\<rparr>"

text \<open>The constructor from a model and the four field parameters.\<close>

definition CollisionRobotOpenVDB_new ::
  "fillWithSpheres \<Rightarrow> robot_model \<Rightarrow> real \<Rightarrow> real \<Rightarrow> real \<Rightarrow> real \<Rightarrow> error + CollisionRobotOpenVDB" where
  "CollisionRobotOpenVDB_new fws model voxel_size background exBandWidth inBandWidth =
     (let obj1 = createDefaultAllowedCollisionMatrix
                   (initial_object model voxel_size background exBandWidth inBandWidth);
          obj2 = createStaticSDFs obj1;
          obj3 = createActiveSDFs fws obj2
      in case createDynamicSDFs obj3 of
           Inl e \<Rightarrow> Inl e
         | Inr obj4 \<Rightarrow> createDefaultDistanceQuery obj4)"

section \<open>collision_robot_openvdb.cpp: the standalone classifier\<close>

definition hasCollisionGeometry :: "CollisionRobotOpenVDB \<Rightarrow> link \<Rightarrow> bool" where
  "hasCollisionGeometry obj l = (l \<in> set (links_' obj))"

text \<open>
  The loop of \<^verbatim>\<open>identifyStaticLinksHelper\<close> over the rest \<open>cs\<close> of \<^verbatim>\<open>fixed_attached\<close>; the
  state is the two reference parameters \<^verbatim>\<open>in_set\<close> and \<^verbatim>\<open>considered\<close>.
\<close>

function identifyStaticLinksHelper_loop ::
  "robot_model \<Rightarrow> link list \<Rightarrow> link list \<Rightarrow> link list \<times> link list \<Rightarrow> link list \<times> link list" where
  "identifyStaticLinksHelper_loop m geom [] s = s"
| "identifyStaticLinksHelper_loop m geom (c # cs) (in_set, considered) =
     (if \<not> c \<in> set considered then
        identifyStaticLinksHelper_loop m geom cs
          (identifyStaticLinksHelper_loop m geom (getAssociatedFixedTransforms m c)
             (if c \<in> set geom then in_set @ [c] else in_set, considered @ [c]))
      else identifyStaticLinksHelper_loop m geom cs (in_set, considered))"
  by pat_completeness auto

lemma identifyStaticLinksHelper_loop_grows:
  "identifyStaticLinksHelper_loop_dom (m, geom, cs, s) \<Longrightarrow>
   set (snd s) \<subseteq> set (snd (identifyStaticLinksHelper_loop m geom cs s))"
proof (induction m geom cs s rule: identifyStaticLinksHelper_loop.pinduct)
  case (1 m geom s)
  then show ?case by (simp add: identifyStaticLinksHelper_loop.psimps)
next
  case (2 m geom c cs in_set considered)
  then show ?case
    by (cases "c \<in> set considered") (auto simp add: identifyStaticLinksHelper_loop.psimps)
qed

termination identifyStaticLinksHelper_loop
proof (relation "walk_measure <*mlex*> measure (\<lambda>(m, geom, cs, s). length cs)")
  show "wf (walk_measure <*mlex*> measure (\<lambda>(m, geom, cs, s). length cs))"
    by (simp add: wf_mlex)
next
  fix m :: robot_model and geom cs in_set considered :: "link list" and c :: link
  assume "c \<notin> set considered"
  then show "((m, geom, getAssociatedFixedTransforms m c,
          if c \<in> set geom then in_set @ [c] else in_set, considered @ [c]),
         (m, geom, c # cs, in_set, considered))
        \<in> walk_measure <*mlex*> measure (\<lambda>(m, geom, cs, s). length cs)"
    by (rule walk_measure_descend)
next
  fix m :: robot_model and geom cs in_set considered :: "link list" and c :: link
  assume "identifyStaticLinksHelper_loop_dom
        (m, geom, getAssociatedFixedTransforms m c,
         if c \<in> set geom then in_set @ [c] else in_set, considered @ [c])"
  then have "set (considered @ [c])
      \<subseteq> set (snd (identifyStaticLinksHelper_loop m geom (getAssociatedFixedTransforms m c)
             (if c \<in> set geom then in_set @ [c] else in_set, considered @ [c])))"
    using identifyStaticLinksHelper_loop_grows by fastforce
  then show "((m, geom, cs,
          identifyStaticLinksHelper_loop m geom (getAssociatedFixedTransforms m c)
            (if c \<in> set geom then in_set @ [c] else in_set, considered @ [c])),
         (m, geom, c # cs, in_set, considered))
        \<in> walk_measure <*mlex*> measure (\<lambda>(m, geom, cs, s). length cs)"
    by (rule walk_measure_continue)
next
  fix m :: robot_model and geom cs in_set considered :: "link list" and c :: link
  assume "\<not> c \<notin> set considered"
  then have "c \<in> set considered" by simp
  then show "((m, geom, cs, in_set, considered), (m, geom, c # cs, in_set, considered))
        \<in> walk_measure <*mlex*> measure (\<lambda>(m, geom, cs, s). length cs)"
    by (rule walk_measure_skip)
qed

definition identifyStaticLinksHelper ::
  "CollisionRobotOpenVDB \<Rightarrow> link \<Rightarrow> link list \<times> link list \<Rightarrow> link list \<times> link list" where
  "identifyStaticLinksHelper obj l s =
     identifyStaticLinksHelper_loop (robot_model_' obj) (links_' obj)
       (getAssociatedFixedTransforms (robot_model_' obj) l) s"

definition identifyStaticLinks :: "CollisionRobotOpenVDB \<Rightarrow> link list" where
  "identifyStaticLinks obj =
     (let root_link = getRootLink (robot_model_' obj);
          considered_set = [root_link];
          static_links = (if hasCollisionGeometry obj root_link then [root_link] else [])
      in fst (identifyStaticLinksHelper obj root_link (static_links, considered_set)))"

section \<open>collision_robot_openvdb.cpp: the self-distance query\<close>

type_synonym coord = "int \<times> int \<times> int"

text \<open>
  An \<^verbatim>\<open>SDFData\<close> (declared in the missing header) as the query uses it; all four are
  operations of the external grid library: \<^verbatim>\<open>transform->worldToIndexNodeCentered\<close>,
  \<^verbatim>\<open>accessor.getValue\<close>, \<^verbatim>\<open>ISGradient<CD_2ND>::result(accessor, ijk)\<close> and
  \<^verbatim>\<open>transform->baseMap()->applyIJT\<close>.
\<close>

record SDFData =
  worldToIndexNodeCentered :: "vec3 \<Rightarrow> coord"
  getValue :: "coord \<Rightarrow> real"
  ISGradient :: "coord \<Rightarrow> vec3"
  applyIJT :: "vec3 \<Rightarrow> vec3"

definition approxEqual :: "real \<Rightarrow> real \<Rightarrow> real \<Rightarrow> bool" where
  "approxEqual a b eps = (\<bar>a - b\<bar> < eps)"

definition vec_sum :: "vec3 \<Rightarrow> real" where
  "vec_sum a = (case a of (ax, ay, az) \<Rightarrow> ax + ay + az)"

text \<open>
  \<^verbatim>\<open>openvdb::Vec3f::normalize()\<close> (external): a vector whose length is within \<open>1.0e-7\<close> of
  zero is left as it is, any other is divided by its length.
\<close>

definition vdb_normalize :: "vec3 \<Rightarrow> vec3" where
  "vdb_normalize a =
     (let d = vec_norm a in if \<not> \<bar>d - 0\<bar> > 1 / 10000000 then a else vec_scale a (1 / d))"

text \<open>
  The body of the loop over \<^verbatim>\<open>data.spheres\<close>; the state is \<^verbatim>\<open>child_min\<close>,
  \<^verbatim>\<open>child_min_ijk\<close> and \<^verbatim>\<open>dist_found\<close>.
\<close>

definition sphere_step ::
  "real \<Rightarrow> SDFData \<Rightarrow> sphere \<Rightarrow> real \<times> coord \<times> bool \<Rightarrow> real \<times> coord \<times> bool" where
  "sphere_step background child_data sp st =
     (case st of (child_min, child_min_ijk, dist_found) \<Rightarrow>
        (let ijk = worldToIndexNodeCentered child_data (fst sp);
             child_dist = getValue child_data ijk
         in
         if \<not> approxEqual child_dist background 0.00001 then
           (let child_dist' = child_dist - snd sp in
            if child_dist' < child_min then (child_dist', ijk, True)
            else (child_min, child_min_ijk, dist_found))
         else (child_min, child_min_ijk, dist_found)))"

text \<open>
  What \<^verbatim>\<open>if (dist_found)\<close> does with the minimum of one child; the state is \<^verbatim>\<open>res\<close>,
  \<^verbatim>\<open>gradient\<close> and \<^verbatim>\<open>total_weights\<close>.
\<close>

definition fold_child ::
  "real \<Rightarrow> bool \<Rightarrow> SDFData \<Rightarrow> string \<Rightarrow> real \<Rightarrow> coord \<Rightarrow>
   DistanceResultsData \<times> vec3 \<times> real \<Rightarrow> DistanceResultsData \<times> vec3 \<times> real" where
  "fold_child background want_gradient child_data name child_min child_min_ijk st =
     (case st of (rs, grad, total_weights) \<Rightarrow>
        (let rs1 = (if child_min < min_distance rs
                    then rs\<lparr>min_distance := child_min, link_name := (fst (link_name rs), name)\<rparr>
                    else rs)
         in
         if want_gradient then
           (let result = ISGradient child_data child_min_ijk in
            if vec_sum result \<noteq> 0 then
              (let weight = background - child_min;
                   result' = vec_scale (vdb_normalize (applyIJT child_data result)) weight
               in (rs1\<lparr>hasGradient := True\<rparr>, vec_add grad result', total_weights + weight))
            else (rs1, grad, total_weights))
         else (rs1, grad, total_weights)))"

text \<open>
  The loop over \<^verbatim>\<open>data.child_index\<close>, for the indices \<open>is\<close> still to come.  The three
  vectors of the query data and the two levels of \<^verbatim>\<open>sdfs_data\<close> are indexed with
  \<^verbatim>\<open>operator[]\<close>; \<^verbatim>\<open>data.child_name[i]\<close> is read only when the minimum improves.
\<close>

fun child_loop ::
  "real \<Rightarrow> DistanceQueryData \<Rightarrow> (LinkType \<Rightarrow> SDFData list) \<Rightarrow> nat list \<Rightarrow>
   DistanceResultsData \<times> vec3 \<times> real \<Rightarrow> error + DistanceResultsData \<times> vec3 \<times> real" where
  "child_loop background data sdfs_data [] st = Inr st"
| "child_loop background data sdfs_data (i # is) st =
     (if i \<ge> length (child_type data) \<or> i \<ge> length (child_index data) then Inl IndexOutOfRange
      else if child_index data ! i \<ge> length (sdfs_data (child_type data ! i)) then Inl IndexOutOfRange
      else
        (let child_data = sdfs_data (child_type data ! i) ! (child_index data ! i);
             (child_min, child_min_ijk, dist_found) =
               fold (sphere_step background child_data) (spheres data) (background, (0, 0, 0), False)
         in
         if dist_found then
           (if child_min < min_distance (fst st) \<and> i \<ge> length (child_name data)
            then Inl IndexOutOfRange
            else child_loop background data sdfs_data is
                   (fold_child background (q_gradient data) child_data
                      (if i < length (child_name data) then child_name data ! i else [])
                      child_min child_min_ijk st))
         else child_loop background data sdfs_data is st))"

text \<open>\<^verbatim>\<open>distanceSelfHelper(data, sdfs_data, res)\<close>: the new content of \<^verbatim>\<open>res\<close>.\<close>

definition distanceSelfHelper ::
  "CollisionRobotOpenVDB \<Rightarrow> DistanceQueryData \<Rightarrow> (LinkType \<Rightarrow> SDFData list) \<Rightarrow>
   DistanceResultsData \<Rightarrow> error + DistanceResultsData" where
  "distanceSelfHelper obj data sdfs_data rs =
     (let rs0 = rs\<lparr>min_distance := background_' obj,
                   link_name := (parent_name data, snd (link_name rs)),
                   hasNearestPoints := False\<rparr>
      in
      case child_loop (background_' obj) data sdfs_data [0..<length (child_index data)]
             (rs0, (0, 0, 0), 0) of
        Inl e \<Rightarrow> Inl e
      | Inr (rs1, grad, total_weights) \<Rightarrow>
          Inr (if hasGradient rs1 then
                 (if total_weights = 0 then rs1\<lparr>gradient := (0, 0, 0)\<rparr>
                  else rs1\<lparr>gradient := eigen_normalize
                         (case grad of (gx, gy, gz) \<Rightarrow>
                            (gx / total_weights, gy / total_weights, gz / total_weights))\<rparr>)
               else rs1))"

text \<open>
  What \<^verbatim>\<open>distanceSelf\<close> takes from the robot state and the grids (external): the world
  transform of a link applied to a sphere centre, and the \<^verbatim>\<open>SDFData\<close> built for the
  \<open>i\<close>-th active, dynamic and static field.
\<close>

record query_state =
  sphere_to_world :: "link \<Rightarrow> vec3 \<Rightarrow> vec3"
  active_SDFData :: "nat \<Rightarrow> SDFData"
  dynamic_SDFData :: "nat \<Rightarrow> SDFData"
  static_SDFData :: "nat \<Rightarrow> SDFData"

text \<open>The first loop of \<^verbatim>\<open>distanceSelf\<close>, over the indices of \<^verbatim>\<open>active_links_\<close>.\<close>

fun prepare_queries ::
  "CollisionRobotOpenVDB \<Rightarrow> query_state \<Rightarrow> DistanceRequest \<Rightarrow> nat list \<Rightarrow>
   DistanceQueryData list \<Rightarrow> error + DistanceQueryData list" where
  "prepare_queries obj state rq [] dist_query = Inr dist_query"
| "prepare_queries obj state rq (i # is) dist_query =
     (if i \<ge> length dist_query \<or> i \<ge> length (active_spheres_' obj) then Inl IndexOutOfRange
      else prepare_queries obj state rq is
             (dist_query[i := (dist_query ! i)
                \<lparr>spheres := map (\<lambda>p. (sphere_to_world state (active_links_' obj ! i) (fst p), snd p))
                               (active_spheres_' obj ! i),
                 q_gradient := req_gradient rq\<rparr>]))"

text \<open>
  The loop "Compute minimum distance"; \<open>dflt\<close> is the default-constructed
  \<^verbatim>\<open>DistanceResultsData d\<close>.
\<close>

fun run_queries ::
  "CollisionRobotOpenVDB \<Rightarrow> DistanceResultsData \<Rightarrow> (LinkType \<Rightarrow> SDFData list) \<Rightarrow>
   DistanceQueryData list \<Rightarrow> DistanceResultsData std_map \<Rightarrow> error + DistanceResultsData std_map" where
  "run_queries obj dflt data [] m = Inr m"
| "run_queries obj dflt data (q # qs) m =
     (if \<not> empty q then
        (case distanceSelfHelper obj q data dflt of
           Inl e \<Rightarrow> Inl e
         | Inr d \<Rightarrow> run_queries obj dflt data qs (map_insert (fst (link_name d), d) m))
      else run_queries obj dflt data qs m)"

text \<open>The scan for the smallest entry; the state is \<^verbatim>\<open>d\<close> and \<^verbatim>\<open>index\<close>.\<close>

definition min_scan_step :: "string \<times> DistanceResultsData \<Rightarrow> real \<times> string \<Rightarrow> real \<times> string" where
  "min_scan_step it st =
     (if min_distance (snd it) < fst st then (min_distance (snd it), fst (link_name (snd it))) else st)"

text \<open>
  \<^verbatim>\<open>distanceSelf(req, res, state)\<close>.  \<^verbatim>\<open>res.distance[index]\<close> adds a default-constructed
  entry when the key is not in the map.
\<close>

definition distanceSelf ::
  "CollisionRobotOpenVDB \<Rightarrow> DistanceResultsData \<Rightarrow> query_state \<Rightarrow> DistanceRequest \<Rightarrow>
   DistanceResult \<Rightarrow> error + DistanceResult" where
  "distanceSelf obj dflt state rq rs =
     (case getJointModelGroup (robot_model_' obj) (group_name rq) of
        None \<Rightarrow> Inl NullGroupDereference
      | Some grp \<Rightarrow>
          (case prepare_queries obj state rq [0..<length (active_links_' obj)] (dist_query_' obj) of
             Inl e \<Rightarrow> Inl e
           | Inr dist_query \<Rightarrow>
               (let data = (\<lambda>t. case t of
                              Active \<Rightarrow> map (active_SDFData state) [0..<length (active_links_' obj)]
                            | Dynamic \<Rightarrow> map (dynamic_SDFData state) [0..<length (dynamic_links_' obj)]
                            | Static \<Rightarrow> map (static_SDFData state) [0..<length (static_links_' obj)])
                in
                case run_queries obj dflt data dist_query (distance rs) of
                  Inl e \<Rightarrow> Inl e
                | Inr m \<Rightarrow>
                    (case m of
                       [] \<Rightarrow> Inl MapBeginAtEnd
                     | first # _ \<Rightarrow>
                         (let index = snd (fold min_scan_step m
                                             (background_' obj, fst (link_name (snd first))))
                          in Inr (rs\<lparr>distance := map_insert (index, dflt) m,
                                     minimum_distance :=
                                       (case map_find m index of None \<Rightarrow> dflt | Some e \<Rightarrow> e)\<rparr>))))))"

section \<open>Vocabulary of the statements\<close>

text \<open>
  The content of the output vector of the sphere fit after \<open>k\<close> attempts, when the first
  attempt runs at voxel size \<open>v\<close> and every further one at half the size of the one before.
  This follows the words of the specification ("retries at halved voxel size"), not the
  source; the theorems compare the loop of the source with it.
\<close>

primrec attempt ::
  "(real \<Rightarrow> sphere list \<Rightarrow> sphere list) \<Rightarrow> real \<Rightarrow> sphere list \<Rightarrow> nat \<Rightarrow> sphere list" where
  "attempt fill v sp 0 = sp"
| "attempt fill v sp (Suc k) = fill (v * 0.5 ^ k) (attempt fill v sp k)"

text \<open>One stored entry refines another: it is the same entry or has a strictly smaller distance.\<close>

abbreviation refines :: "DistanceResultsData \<Rightarrow> DistanceResultsData \<Rightarrow> bool" where
  "refines e' e \<equiv> (e' = e \<or> min_distance e' < min_distance e)"

section \<open>Concrete inputs\<close>

definition ex_entry :: "string \<Rightarrow> string \<Rightarrow> real \<Rightarrow> DistanceResultsData" where
  "ex_entry a b d =
     \<lparr>min_distance = d, nearest_points = ((0, 0, 0), (0, 0, 0)), link_name = (a, b),
      hasNearestPoints = False, hasGradient = False, gradient = (0, 0, 0)\<rparr>"

definition ex_link_geom :: "string \<Rightarrow> nat \<Rightarrow> CollisionGeometryData" where
  "ex_link_geom name addr =
     \<lparr>body_type = ROBOT_LINK, raw = addr, getID = name, obj_id = name, ptr_link = Some addr,
      attached_link = None, touch_links = {}\<rparr>"

definition ex_request :: "link set option \<Rightarrow> bool \<Rightarrow> DistanceRequest" where
  "ex_request comps g =
     \<lparr>group_name = ''arm'', active_components_only = comps, acm = None, distance_threshold = 10,
      global = g, detailed = True, verbose = False, req_gradient = False\<rparr>"

text \<open>A measurement that returns the distance \<open>d\<close> whatever the bound.\<close>

definition ex_fcl :: "real \<Rightarrow> fcl_distance" where
  "ex_fcl d = (\<lambda>o1 o2 det bound.
     (d, \<lparr>fcl_min_distance = d, fcl_nearest_points = ((0, 0, 0), (1, 0, 0))\<rparr>))"

definition ex_cdata :: "link set option \<Rightarrow> bool \<Rightarrow> DistanceResultsData std_map \<Rightarrow> DistanceData" where
  "ex_cdata comps g m =
     \<lparr>req = ex_request comps g,
      res = \<lparr>minimum_distance = ex_entry ''a'' ''b'' 5, distance = m, collision = False\<rparr>,
      done_flag = False\<rparr>"

text \<open>
  A model with the root 0 (\<open>world\<close>) and the links 1 (\<open>base\<close>), 2 (\<open>arm_link\<close>) and
  3 (\<open>camera\<close>); \<open>geom\<close> are the links with collision geometry, \<open>groups\<close> the planning
  groups and \<open>fixed\<close> the maps of associated fixed transforms.
\<close>

definition ex_model ::
  "link list \<Rightarrow> (string \<times> link list) list \<Rightarrow> (link \<times> link list) list \<Rightarrow> robot_model" where
  "ex_model geom groups fixed =
     \<lparr>getRootLink = 0, getLinkModelsWithCollisionGeometry = geom,
      getJointModelGroups =
        map (\<lambda>(n, ls). \<lparr>group_getName = n, getLinkModels = ls,
                           getUpdatedLinkModelsWithGeometrySet = set ls \<inter> set geom\<rparr>) groups,
      associated_fixed_transforms = fixed,
      getName = (\<lambda>l. if l = 0 then ''world'' else if l = 1 then ''base''
                      else if l = 2 then ''arm_link'' else ''camera''),
      getDisabledCollisionPairs = []\<rparr>"

text \<open>The object at the start of the constructor body, for the parameters 1, 1, 2 and 2.\<close>

definition ex_robot :: "robot_model \<Rightarrow> CollisionRobotOpenVDB" where
  "ex_robot model = initial_object model 1 1 2 2"

definition ex_two_spheres :: fillWithSpheres where
  "ex_two_spheres = (\<lambda>l v ex inb sp. [((0, 0, 0), 1), ((1, 0, 0), 1)])"

definition ex_one_sphere :: fillWithSpheres where
  "ex_one_sphere = (\<lambda>l v ex inb sp. [((0, 0, 0), 1)])"

text \<open>A field whose every cell holds the distance \<open>d\<close> and the gradient \<open>g\<close>.\<close>

definition ex_sdf :: "real \<Rightarrow> vec3 \<Rightarrow> SDFData" where
  "ex_sdf d g =
     \<lparr>worldToIndexNodeCentered = (\<lambda>p. (0, 0, 0)), getValue = (\<lambda>ijk. d),
      ISGradient = (\<lambda>ijk. g), applyIJT = (\<lambda>w. w)\<rparr>"

text \<open>
  An active link with one sphere of radius 0.1 between two walls, each at distance 0.5,
  whose gradients point against each other.
\<close>

definition ex_query :: DistanceQueryData where
  "ex_query =
     \<lparr>parent_name = ''arm_link'', child_name = [''left_wall'', ''right_wall''],
      child_index = [0, 1], child_type = [Dynamic, Dynamic],
      spheres = [((0, 0, 0), 1 / 10)], q_gradient = True, empty = False\<rparr>"

definition ex_sdfs :: "LinkType \<Rightarrow> SDFData list" where
  "ex_sdfs t =
     (case t of Dynamic \<Rightarrow> [ex_sdf (1 / 2) (1, 0, 0), ex_sdf (1 / 2) (- 1, 0, 0)] | _ \<Rightarrow> [])"

definition ex_state :: query_state where
  "ex_state =
     \<lparr>sphere_to_world = (\<lambda>l p. p), active_SDFData = (\<lambda>i. ex_sdf 1 (0, 0, 0)),
      dynamic_SDFData = (\<lambda>i. ex_sdf 1 (0, 0, 0)), static_SDFData = (\<lambda>i. ex_sdf 1 (0, 0, 0))\<rparr>"

lemmas ex_defs = ex_entry_def ex_link_geom_def ex_request_def ex_fcl_def ex_cdata_def
  ex_model_def ex_robot_def initial_object_def ex_two_spheres_def ex_one_sphere_def ex_sdf_def ex_query_def
  ex_sdfs_def ex_state_def

lemmas callback_defs = distanceDetailedCallback_def measurement_request_def sameObject_def
  active_flags_def not_active_def link_of_def always_allow_collision_def map_find_def
  select_dist_threshold_def record_distance_def write_side_def map_insert_def map_modify_def
  DistanceResultsData_update_def

section \<open>The narrow-phase callback: bound, early exit, monotonic refinement\<close>

lemma map_find_insert:
  "map_find (map_insert (k, v) m) k' =
     (if k \<in> fst ` set m then map_find m k' else if k' = k then Some v else map_find m k')"
proof -
  have "k \<notin> fst ` set m \<Longrightarrow>
        map_of (insort_key fst (k, v) m) k' = (if k' = k then Some v else map_of m k')"
    by (induction m) auto
  then show ?thesis by (simp add: map_find_def map_insert_def)
qed

lemma map_find_modify:
  "map_find (map_modify k f m) k' =
     (if k' = k then map_option f (map_find m k) else map_find m k')"
  unfolding map_find_def map_modify_def
  by (induction m) auto

lemma map_find_keys: "map_find m k = Some e \<Longrightarrow> k \<in> fst ` set m"
  unfolding map_find_def by (metis map_of_SomeD fst_conv image_eqI)

lemma refines_update: "refines (DistanceResultsData_update e r) e"
  by (simp add: DistanceResultsData_update_def)

lemma write_side_refines:
  assumes "map_find m k' = Some e"
  shows "\<exists>e'. map_find (write_side a it k r m) k' = Some e' \<and> refines e' e"
proof (cases "a \<and> it \<noteq> None \<and> k' = k")
  case True
  then show ?thesis
    using assms refines_update[of e r]
    by (auto simp: write_side_def map_find_modify)
next
  case False
  then have "map_find (write_side a it k r m) k' = Some e"
    using assms map_find_keys[OF assms]
    by (auto simp: write_side_def map_find_modify map_find_insert split: option.splits)
  then show ?thesis by simp
qed

lemma record_distance_refines:
  assumes "map_find (distance (res cdata)) k = Some e"
  shows "\<exists>e'. map_find (distance (res (record_distance cdata a1 a2 it1 it2 k1 k2 d r))) k = Some e'
              \<and> refines e' e"
proof -
  let ?m = "distance (res cdata)"
  obtain e1 where e1: "map_find (write_side a1 it1 k1 r ?m) k = Some e1" "refines e1 e"
    using write_side_refines[OF assms] by blast
  obtain e2 where e2: "map_find (write_side a2 it2 k2 r (write_side a1 it1 k1 r ?m)) k = Some e2"
    "refines e2 e1"
    using write_side_refines[OF e1(1)] by blast
  have "refines e2 e" using e1(2) e2(2) by auto
  then show ?thesis
    using assms e2(1) by (auto simp: record_distance_def Let_def)
qed

lemma record_distance_global_refines:
  "refines (minimum_distance (res (record_distance cdata a1 a2 it1 it2 k1 k2 d r)))
           (minimum_distance (res cdata))"
  using refines_update[of "minimum_distance (res cdata)" r]
  by (auto simp: record_distance_def Let_def)

lemma callback_refines:
  assumes "map_find (distance (res cdata)) k = Some e"
  shows "\<exists>e'. map_find (distance (res (fst (distanceDetailedCallback dflt fcl cd1 cd2 cdata)))) k
                 = Some e' \<and> refines e' e"
  using assms record_distance_refines[OF assms]
  by (auto simp: distanceDetailedCallback_def Let_def split: option.splits prod.splits)

lemma callback_global_refines:
  "refines (minimum_distance (res (fst (distanceDetailedCallback dflt fcl cd1 cd2 cdata))))
           (minimum_distance (res cdata))"
  using record_distance_global_refines
  by (auto simp: distanceDetailedCallback_def Let_def split: option.splits prod.splits)

lemma process_pairs_refines:
  "map_find (distance (res cdata)) k = Some e \<Longrightarrow>
   \<exists>e'. map_find (distance (res (process_pairs dflt fcl ps cdata))) k = Some e' \<and> refines e' e"
proof (induction ps arbitrary: cdata e)
  case Nil
  then show ?case by simp
next
  case (Cons p ps)
  obtain cd1 cd2 where p: "p = (cd1, cd2)" by (cases p)
  obtain cdata' stop where cb: "distanceDetailedCallback dflt fcl cd1 cd2 cdata = (cdata', stop)"
    by (cases "distanceDetailedCallback dflt fcl cd1 cd2 cdata")
  from callback_refines[OF Cons.prems, of dflt fcl cd1 cd2] cb
  obtain e1 where e1: "map_find (distance (res cdata')) k = Some e1" "refines e1 e"
    by auto
  show ?case
  proof (cases stop)
    case True
    then show ?thesis using e1 p cb by simp
  next
    case False
    from Cons.IH[OF e1(1)] obtain e2 where
      e2: "map_find (distance (res (process_pairs dflt fcl ps cdata'))) k = Some e2" "refines e2 e1"
      by blast
    have "refines e2 e" using e1(2) e2(2) by auto
    then show ?thesis using False p cb e2(1) by simp
  qed
qed

lemma process_pairs_global_refines:
  "refines (minimum_distance (res (process_pairs dflt fcl ps cdata))) (minimum_distance (res cdata))"
proof (induction ps arbitrary: cdata)
  case Nil
  then show ?case by simp
next
  case (Cons p ps)
  obtain cd1 cd2 where p: "p = (cd1, cd2)" by (cases p)
  obtain cdata' stop where cb: "distanceDetailedCallback dflt fcl cd1 cd2 cdata = (cdata', stop)"
    by (cases "distanceDetailedCallback dflt fcl cd1 cd2 cdata")
  have s1: "refines (minimum_distance (res cdata')) (minimum_distance (res cdata))"
    using callback_global_refines[of dflt fcl cd1 cd2 cdata] cb by simp
  show ?case
  proof (cases stop)
    case True
    then show ?thesis using s1 p cb by simp
  next
    case False
    have "refines (minimum_distance (res (process_pairs dflt fcl ps cdata')))
                  (minimum_distance (res cdata))"
      using Cons.IH[of cdata'] s1 by auto
    then show ?thesis using False p cb by simp
  qed
qed

lemma fold_child_min:
  "min_distance (fst (fold_child bg g cd name cmin ijk st)) \<le> min_distance (fst st)"
  by (cases st) (auto simp: fold_child_def Let_def)

lemma child_loop_min:
  "child_loop bg data sdfs is st = Inr st' \<Longrightarrow> min_distance (fst st') \<le> min_distance (fst st)"
proof (induction "is" arbitrary: st)
  case Nil
  then show ?case by simp
next
  case (Cons i "is")
  from Cons.prems have
    "child_loop bg data sdfs is st = Inr st' \<or>
     (\<exists>cd name cmin ijk.
        child_loop bg data sdfs is (fold_child bg (q_gradient data) cd name cmin ijk st) = Inr st')"
    by (auto simp: Let_def split: if_splits prod.splits)
  then show ?case
  proof
    assume "child_loop bg data sdfs is st = Inr st'"
    then show ?thesis by (rule Cons.IH)
  next
    assume "\<exists>cd name cmin ijk.
        child_loop bg data sdfs is (fold_child bg (q_gradient data) cd name cmin ijk st) = Inr st'"
    then obtain cd name cmin ijk where
      "child_loop bg data sdfs is (fold_child bg (q_gradient data) cd name cmin ijk st) = Inr st'"
      by blast
    then have "min_distance (fst st')
                 \<le> min_distance (fst (fold_child bg (q_gradient data) cd name cmin ijk st))"
      by (rule Cons.IH)
    also have "\<dots> \<le> min_distance (fst st)" by (rule fold_child_min)
    finally show ?thesis .
  qed
qed

text \<open>
  Claim C2, as amended.  For a pair that reaches the measurement, the bound handed to the
  exact-distance computation is the current global minimum in global-only mode.  In
  per-link mode it is taken from the sides that are active (both sides when the request
  names no group): with both sides active, the larger of the two stored distances when
  both have an entry, otherwise the distance threshold of the request; with one side
  active, the stored distance of that side alone when it has an entry, otherwise the
  threshold.  At least one side is active.
\<close>

theorem dist_threshold_selection:
  assumes "measurement_request cdata cd1 cd2 = Some (active1, active2, it1, it2, b)"
  shows "(\<not> global (req cdata) \<longrightarrow>
            it1 = map_find (distance (res cdata)) (obj_id cd1) \<and>
            it2 = map_find (distance (res cdata)) (obj_id cd2)) \<and>
         (active1 \<or> active2) \<and>
         (active_components_only (req cdata) = None \<longrightarrow> active1 \<and> active2) \<and>
         b = (if global (req cdata) then min_distance (minimum_distance (res cdata))
              else if active1 \<and> active2 then
                (case (it1, it2) of
                   (Some e1, Some e2) \<Rightarrow> max (min_distance e1) (min_distance e2)
                 | _ \<Rightarrow> distance_threshold (req cdata))
              else if active1 then
                (case it1 of Some e1 \<Rightarrow> min_distance e1 | None \<Rightarrow> distance_threshold (req cdata))
              else
                (case it2 of Some e2 \<Rightarrow> min_distance e2 | None \<Rightarrow> distance_threshold (req cdata)))"
proof -
  from assms have nso: "\<not> sameObject cd1 cd2"
    by (auto simp: measurement_request_def split: if_splits)
  from assms obtain a1 a2 where af: "active_flags (req cdata) cd1 cd2 = Some (a1, a2)"
    by (auto simp: measurement_request_def split: if_splits option.splits)
  from assms nso af have eqs: "active1 = a1" "active2 = a2"
    "\<not> global (req cdata) \<longrightarrow> it1 = map_find (distance (res cdata)) (obj_id cd1)"
    "\<not> global (req cdata) \<longrightarrow> it2 = map_find (distance (res cdata)) (obj_id cd2)"
    "b = select_dist_threshold (req cdata) (res cdata) a1 a2 it1 it2"
    by (auto simp: measurement_request_def Let_def split: if_splits)
  from af have act: "a1 \<or> a2" "active_components_only (req cdata) = None \<longrightarrow> a1 \<and> a2"
    by (auto simp: active_flags_def split: option.splits if_splits)
  show ?thesis
    using eqs act
    by (auto simp: select_dist_threshold_def split: option.splits)
qed

text \<open>
  The theorem at a request restricted to the group \<open>{1}\<close>: the side \<open>a\<close> (link 1) is
  active with the stored distance 1, the side \<open>b\<close> (link 2) is not, and the bound is 1.
  For the same pair and a request that names no group both sides are active and the bound
  is 5, the larger of the two stored distances.
\<close>

theorem dist_threshold_selection_witness:
  "measurement_request
     (ex_cdata (Some {1}) False [(''a'', ex_entry ''a'' ''x'' 1), (''b'', ex_entry ''b'' ''x'' 5)])
     (ex_link_geom ''a'' 1) (ex_link_geom ''b'' 2)
     = Some (True, False, Some (ex_entry ''a'' ''x'' 1), Some (ex_entry ''b'' ''x'' 5), 1) \<and>
   (1 :: real) = min_distance (ex_entry ''a'' ''x'' 1) \<and>
   measurement_request
     (ex_cdata None False [(''a'', ex_entry ''a'' ''x'' 1), (''b'', ex_entry ''b'' ''x'' 5)])
     (ex_link_geom ''a'' 1) (ex_link_geom ''b'' 2)
     = Some (True, True, Some (ex_entry ''a'' ''x'' 1), Some (ex_entry ''b'' ''x'' 5), 5) \<and>
   (5 :: real) = max (min_distance (ex_entry ''a'' ''x'' 1)) (min_distance (ex_entry ''b'' ''x'' 5))"
proof -
  have h: "measurement_request
     (ex_cdata (Some {1}) False [(''a'', ex_entry ''a'' ''x'' 1), (''b'', ex_entry ''b'' ''x'' 5)])
     (ex_link_geom ''a'' 1) (ex_link_geom ''b'' 2)
     = Some (True, False, Some (ex_entry ''a'' ''x'' 1), Some (ex_entry ''b'' ''x'' 5), 1)"
    by (simp add: callback_defs ex_defs)
  have g: "measurement_request
     (ex_cdata None False [(''a'', ex_entry ''a'' ''x'' 1), (''b'', ex_entry ''b'' ''x'' 5)])
     (ex_link_geom ''a'' 1) (ex_link_geom ''b'' 2)
     = Some (True, True, Some (ex_entry ''a'' ''x'' 1), Some (ex_entry ''b'' ''x'' 5), 5)"
    by (simp add: callback_defs ex_defs)
  from dist_threshold_selection[OF h] dist_threshold_selection[OF g] h g show ?thesis
    by (simp add: ex_entry_def)
qed

text \<open>
  Claim C2 as stated fails where one side only is active.  Both sides have a stored
  distance (1 for \<open>a\<close>, 5 for \<open>b\<close>), the request is per-link and restricted to the group
  \<open>{1}\<close>, and the pair reaches the measurement with the bound 1, which is not the larger
  of the two stored distances.  When only the active side \<open>a\<close> has an entry the bound is
  again its stored distance 1, not the threshold 10.
\<close>

theorem dist_threshold_counterexample:
  "measurement_request
     (ex_cdata (Some {1}) False [(''a'', ex_entry ''a'' ''x'' 1), (''b'', ex_entry ''b'' ''x'' 5)])
     (ex_link_geom ''a'' 1) (ex_link_geom ''b'' 2)
     = Some (True, False, Some (ex_entry ''a'' ''x'' 1), Some (ex_entry ''b'' ''x'' 5), 1) \<and>
   max (min_distance (ex_entry ''a'' ''x'' 1)) (min_distance (ex_entry ''b'' ''x'' 5)) = 5 \<and>
   \<not> global (req (ex_cdata (Some {1}) False
        [(''a'', ex_entry ''a'' ''x'' 1), (''b'', ex_entry ''b'' ''x'' 5)])) \<and>
   measurement_request (ex_cdata (Some {1}) False [(''a'', ex_entry ''a'' ''x'' 1)])
     (ex_link_geom ''a'' 1) (ex_link_geom ''b'' 2)
     = Some (True, False, Some (ex_entry ''a'' ''x'' 1), None, 1) \<and>
   distance_threshold (req (ex_cdata (Some {1}) False [(''a'', ex_entry ''a'' ''x'' 1)])) = 10"
  by (simp add: callback_defs ex_defs)

text \<open>
  Claim C3.  When the measurement of a pair returns a value that is not below the bound
  it was given, the callback returns the aggregate as it was: global minimum, per-link
  map, collision flag and done flag.
\<close>

theorem threshold_early_exit:
  assumes "measurement_request cdata cd1 cd2 = Some (active1, active2, it1, it2, b)"
      and "b \<le> fst (fcl cd1 cd2 (detailed (req cdata)) b)"
  shows "distanceDetailedCallback dflt fcl cd1 cd2 cdata = (cdata, done_flag cdata)"
  using assms unfolding distanceDetailedCallback_def
  by (auto split: prod.splits)

text \<open>
  The theorem where \<open>a\<close> has the stored distance 5, \<open>c\<close> has none (the bound is the
  threshold 10) and the measurement returns 20.
\<close>

theorem threshold_early_exit_witness:
  "measurement_request (ex_cdata None False [(''a'', ex_entry ''a'' ''b'' 5)])
     (ex_link_geom ''a'' 1) (ex_link_geom ''c'' 3)
     = Some (True, True, Some (ex_entry ''a'' ''b'' 5), None, 10) \<and>
   (10 :: real) \<le> fst (ex_fcl 20 (ex_link_geom ''a'' 1) (ex_link_geom ''c'' 3)
                     (detailed (req (ex_cdata None False [(''a'', ex_entry ''a'' ''b'' 5)]))) 10) \<and>
   distanceDetailedCallback (ex_entry [] [] 0) (ex_fcl 20) (ex_link_geom ''a'' 1) (ex_link_geom ''c'' 3)
     (ex_cdata None False [(''a'', ex_entry ''a'' ''b'' 5)])
     = (ex_cdata None False [(''a'', ex_entry ''a'' ''b'' 5)], False)"
proof -
  have h: "measurement_request (ex_cdata None False [(''a'', ex_entry ''a'' ''b'' 5)])
     (ex_link_geom ''a'' 1) (ex_link_geom ''c'' 3)
     = Some (True, True, Some (ex_entry ''a'' ''b'' 5), None, 10)"
    by (simp add: callback_defs ex_defs)
  have m: "(10 :: real) \<le> fst (ex_fcl 20 (ex_link_geom ''a'' 1) (ex_link_geom ''c'' 3)
                     (detailed (req (ex_cdata None False [(''a'', ex_entry ''a'' ''b'' 5)]))) 10)"
    by (simp add: ex_fcl_def)
  from threshold_early_exit[where fcl = "ex_fcl 20" and dflt = "ex_entry [] [] 0", OF h m] h m show ?thesis
    by (simp add: ex_cdata_def)
qed

text \<open>
  Claim C4.  While the candidate pairs of one query are processed, every body identifier
  that has an entry in the per-link map keeps an entry, and the new entry is the old one
  or has a strictly smaller distance; the same holds for the global minimum entry.  In
  the self-distance helper the minimum of the result never rises while the children are
  processed.
\<close>

theorem monotonic_refinement:
  "(map_find (distance (res cdata)) k = Some e \<longrightarrow>
      (\<exists>e'. map_find (distance (res (process_pairs dflt fcl ps cdata))) k = Some e' \<and>
            (e' = e \<or> min_distance e' < min_distance e))) \<and>
   (minimum_distance (res (process_pairs dflt fcl ps cdata)) = minimum_distance (res cdata) \<or>
    min_distance (minimum_distance (res (process_pairs dflt fcl ps cdata)))
      < min_distance (minimum_distance (res cdata))) \<and>
   (child_loop bg data sdfs_data ixs st = Inr st' \<longrightarrow>
      min_distance (fst st') \<le> min_distance (fst st))"
  using process_pairs_refines[of cdata k e dflt fcl ps]
        process_pairs_global_refines[of dflt fcl ps cdata]
        child_loop_min[of bg data sdfs_data ixs st st']
  by blast

text \<open>
  The theorem for one pair with a measured distance of 2, where \<open>a\<close> has the stored
  distance 5, and for the two children of \<open>ex_query\<close>.
\<close>

theorem monotonic_refinement_witness:
  "map_find (distance (res (ex_cdata None False [(''a'', ex_entry ''a'' ''b'' 5)]))) ''a''
     = Some (ex_entry ''a'' ''b'' 5) \<and>
   (\<exists>e'. map_find (distance (res (process_pairs (ex_entry [] [] 0) (ex_fcl 2)
              [(ex_link_geom ''a'' 1, ex_link_geom ''c'' 3)]
              (ex_cdata None False [(''a'', ex_entry ''a'' ''b'' 5)])))) ''a'' = Some e' \<and>
         (e' = ex_entry ''a'' ''b'' 5 \<or> min_distance e' < min_distance (ex_entry ''a'' ''b'' 5))) \<and>
   (\<exists>st'. child_loop 1 ex_query ex_sdfs [0, 1] (ex_entry ''arm_link'' [] 1, (0, 0, 0), 0) = Inr st' \<and>
          min_distance (fst st') \<le> min_distance (fst (ex_entry ''arm_link'' [] 1, (0 :: real, 0 :: real, 0 :: real), 0 :: real)))"
proof -
  have h1: "map_find (distance (res (ex_cdata None False [(''a'', ex_entry ''a'' ''b'' 5)]))) ''a''
     = Some (ex_entry ''a'' ''b'' 5)"
    by (simp add: map_find_def ex_cdata_def)
  obtain st' where h2:
    "child_loop 1 ex_query ex_sdfs [0, 1] (ex_entry ''arm_link'' [] 1, (0, 0, 0), 0) = Inr st'"
    by (simp add: sphere_step_def fold_child_def approxEqual_def vec_sum_def vdb_normalize_def
        vec_norm_def squaredNorm_def vec_scale_def vec_add_def Let_def ex_defs)
  from monotonic_refinement[where cdata = "ex_cdata None False [(''a'', ex_entry ''a'' ''b'' 5)]"
      and k = "''a''" and e = "ex_entry ''a'' ''b'' 5" and dflt = "ex_entry [] [] 0"
      and fcl = "ex_fcl 2" and ps = "[(ex_link_geom ''a'' 1, ex_link_geom ''c'' 3)]"
      and bg = 1 and data = ex_query and sdfs_data = ex_sdfs and ixs = "[0, 1]"
      and st = "(ex_entry ''arm_link'' [] 1, (0, 0, 0), 0)" and st' = st'] h1 h2
  show ?thesis by blast
qed

section \<open>Construction: the three role sequences\<close>

lemma erase_remove_distinct:
  assumes "distinct v" and "erase_remove x v = Inr v'"
  shows "x \<in> set v \<and> v' = removeAll x v"
proof -
  from assms(2) have x: "x \<in> set v"
    by (auto simp: erase_remove_def split: if_splits)
  have "length (removeAll x v) = length v - 1"
    using assms(1) x by (simp add: distinct_remove1_removeAll[symmetric] length_remove1)
  then have "drop (Suc (length (removeAll x v))) v = []"
    using x by (cases v) auto
  then show ?thesis using assms(2) x by (simp add: erase_remove_def)
qed

lemma erase_remove_all_distinct:
  "distinct v \<Longrightarrow> erase_remove_all xs v = Inr v' \<Longrightarrow>
   distinct xs \<and> set xs \<subseteq> set v \<and> distinct v' \<and> set v' = set v - set xs"
proof (induction xs arbitrary: v)
  case Nil
  then show ?case by simp
next
  case (Cons x xs)
  from Cons.prems(2) obtain v1 where v1: "erase_remove x v = Inr v1"
    and rest: "erase_remove_all xs v1 = Inr v'"
    by (auto split: sum.splits)
  from erase_remove_distinct[OF Cons.prems(1) v1] have x: "x \<in> set v" and eq: "v1 = removeAll x v"
    by simp_all
  have d1: "distinct v1" using Cons.prems(1) eq by (simp add: distinct_removeAll)
  from Cons.IH[OF d1 rest]
  have ih: "distinct xs" "set xs \<subseteq> set v1" "distinct v'" "set v' = set v1 - set xs"
    by simp_all
  have "set v1 = set v - {x}" using eq by simp
  then show ?case using ih x by auto
qed

lemma fit_active_link_frame:
  "static_links_' (fit_active_link fws i obj) = static_links_' obj \<and>
   active_links_' (fit_active_link fws i obj) = active_links_' obj \<and>
   links_' (fit_active_link fws i obj) = links_' obj \<and>
   dynamic_links_' (fit_active_link fws i obj) = dynamic_links_' obj"
  by (simp add: fit_active_link_def Let_def split: prod.splits)

lemma fold_fit_active_link_frame:
  "static_links_' (fold (fit_active_link fws) ixs obj) = static_links_' obj \<and>
   active_links_' (fold (fit_active_link fws) ixs obj) = active_links_' obj \<and>
   links_' (fold (fit_active_link fws) ixs obj) = links_' obj \<and>
   dynamic_links_' (fold (fit_active_link fws) ixs obj) = dynamic_links_' obj"
  by (induction ixs arbitrary: obj) (simp_all add: fit_active_link_frame)

lemma createActiveSDFs_frame:
  "static_links_' (createActiveSDFs fws obj) = static_links_' obj \<and>
   links_' (createActiveSDFs fws obj) = links_' obj \<and>
   active_links_' (createActiveSDFs fws obj) =
     collect_active_links (getJointModelGroups (robot_model_' obj)) (links_' obj) (active_links_' obj)"
  by (simp add: createActiveSDFs_def Let_def fold_fit_active_link_frame)

lemma createDefaultDistanceQuery_loop_frame:
  "createDefaultDistanceQuery_loop js obj = Inr obj' \<Longrightarrow>
   static_links_' obj' = static_links_' obj \<and> active_links_' obj' = active_links_' obj \<and>
   dynamic_links_' obj' = dynamic_links_' obj \<and> links_' obj' = links_' obj"
  by (induction js arbitrary: obj) (auto split: sum.splits)

lemma createStaticSDFs_frame:
  "links_' (createStaticSDFs obj) = links_' obj \<and>
   active_links_' (createStaticSDFs obj) = active_links_' obj \<and>
   robot_model_' (createStaticSDFs obj) = robot_model_' obj"
  by (simp add: createStaticSDFs_def addAssociatedFixedTransforms_def Let_def split: prod.splits)

lemmas ctor_defs = CollisionRobotOpenVDB_new_def createDefaultAllowedCollisionMatrix_def
  createStaticSDFs_def addAssociatedFixedTransforms_def getAssociatedFixedTransforms_def
  createActiveSDFs_def collect_active_links_def resize_def fit_active_link_def
  createDynamicSDFs_def erase_remove_def createDefaultDistanceQuery_def query_entry_def
  query_children_def isCollisionAllowed_def default_DistanceQueryData_def

lemma addAssociatedFixedTransforms_loop_static:
  "set (fst (addAssociatedFixedTransforms_loop m geom cs s)) \<subseteq> set (fst s) \<union> set geom"
proof (induction m geom cs s rule: addAssociatedFixedTransforms_loop.induct)
  case (1 m geom s)
  show ?case by simp
next
  case (2 m geom c cs static links_so_far)
  show ?case
  proof (cases "c \<in> set links_so_far")
    case True
    then show ?thesis using "2.IH"(1) by simp
  next
    case False
    let ?s1 = "(if c \<in> set geom then static @ [c] else static, links_so_far @ [c])"
    let ?r = "addAssociatedFixedTransforms_loop m geom (getAssociatedFixedTransforms m c) ?s1"
    have a: "set (fst ?r) \<subseteq> set (fst ?s1) \<union> set geom"
      using "2.IH"(2)[OF False] .
    have b: "set (fst (addAssociatedFixedTransforms_loop m geom cs ?r)) \<subseteq> set (fst ?r) \<union> set geom"
      using "2.IH"(3)[OF False] .
    have c: "set (fst ?s1) \<subseteq> set static \<union> set geom" by auto
    have eq: "addAssociatedFixedTransforms_loop m geom (c # cs) (static, links_so_far)
            = addAssociatedFixedTransforms_loop m geom cs ?r"
      using False by simp
    have "set (fst (addAssociatedFixedTransforms_loop m geom cs ?r)) \<subseteq> set static \<union> set geom"
      using a b c by blast
    then show ?thesis unfolding eq by simp
  qed
qed

lemma createStaticSDFs_static:
  "set (static_links_' (createStaticSDFs obj)) \<subseteq> set (static_links_' obj) \<union> set (links_' obj)"
proof -
  let ?root = "getRootLink (robot_model_' obj)"
  let ?s0 = "if ?root \<in> set (links_' obj) then static_links_' obj @ [?root] else static_links_' obj"
  have "static_links_' (createStaticSDFs obj)
          = fst (addAssociatedFixedTransforms_loop (robot_model_' obj) (links_' obj)
                   (getAssociatedFixedTransforms (robot_model_' obj) ?root) (?s0, []))"
    by (simp add: createStaticSDFs_def addAssociatedFixedTransforms_def Let_def split: prod.splits)
  moreover have "set ?s0 \<subseteq> set (static_links_' obj) \<union> set (links_' obj)" by auto
  ultimately show ?thesis
    using addAssociatedFixedTransforms_loop_static[of "robot_model_' obj" "links_' obj"
        "getAssociatedFixedTransforms (robot_model_' obj) ?root" "(?s0, [])"]
    by auto
qed

lemma collect_links_of_group:
  "distinct acc \<Longrightarrow>
   distinct (fold (\<lambda>l acc. if l \<notin> set acc \<and> l \<in> set geom then acc @ [l] else acc) ls acc) \<and>
   set (fold (\<lambda>l acc. if l \<notin> set acc \<and> l \<in> set geom then acc @ [l] else acc) ls acc)
     \<subseteq> set acc \<union> set geom"
proof (induction ls arbitrary: acc)
  case Nil
  then show ?case by simp
next
  case (Cons l ls)
  let ?acc = "if l \<notin> set acc \<and> l \<in> set geom then acc @ [l] else acc"
  have "distinct ?acc" "set ?acc \<subseteq> set acc \<union> set geom" using Cons.prems by auto
  with Cons.IH[of ?acc] show ?case by auto
qed

lemma collect_active_links_distinct:
  "distinct acc \<Longrightarrow>
   distinct (collect_active_links groups geom acc) \<and>
   set (collect_active_links groups geom acc) \<subseteq> set acc \<union> set geom"
proof (induction groups arbitrary: acc)
  case Nil
  then show ?case by (simp add: collect_active_links_def)
next
  case (Cons g groups)
  let ?acc = "fold (\<lambda>l acc. if l \<notin> set acc \<and> l \<in> set geom then acc @ [l] else acc)
                (getLinkModels g) acc"
  from collect_links_of_group[OF Cons.prems, of geom "getLinkModels g"]
  have g: "distinct ?acc" "set ?acc \<subseteq> set acc \<union> set geom" by simp_all
  have "collect_active_links (g # groups) geom acc = collect_active_links groups geom ?acc"
    by (simp add: collect_active_links_def)
  with Cons.IH[OF g(1)] g(2) show ?case by auto
qed

lemma erase_remove_all_defined:
  "distinct xs \<Longrightarrow> set xs \<subseteq> set v \<Longrightarrow> distinct v \<Longrightarrow> \<exists>v'. erase_remove_all xs v = Inr v'"
proof (induction xs arbitrary: v)
  case Nil
  then show ?case by simp
next
  case (Cons x xs)
  have x: "x \<in> set v" using Cons.prems(2) by simp
  then obtain v1 where v1: "erase_remove x v = Inr v1" by (simp add: erase_remove_def)
  from erase_remove_distinct[OF Cons.prems(3) v1] have eq: "v1 = removeAll x v" by simp
  have "distinct xs" "set xs \<subseteq> set v1" "distinct v1"
    using Cons.prems eq by (auto simp: distinct_removeAll)
  from Cons.IH[OF this] show ?case using v1 by simp
qed

lemma resize_length: "length (resize n d xs) = n"
  by (simp add: resize_def)

lemma fold_fit_active_link_length:
  "length (active_spheres_' (fold (fit_active_link fws) ixs obj)) = length (active_spheres_' obj)"
  by (induction ixs arbitrary: obj) (simp_all add: fit_active_link_def Let_def split: prod.splits)

lemma createActiveSDFs_length:
  "length (active_spheres_' (createActiveSDFs fws obj))
     = length (active_links_' (createActiveSDFs fws obj))"
  by (simp add: createActiveSDFs_def Let_def fold_fit_active_link_length
      fold_fit_active_link_frame resize_length)

lemma createDefaultDistanceQuery_loop_defined:
  "list_all (\<lambda>j. j < length (active_spheres_' obj)) js \<Longrightarrow>
   \<exists>obj'. createDefaultDistanceQuery_loop js obj = Inr obj'"
proof (induction js arbitrary: obj)
  case Nil
  then show ?case by simp
next
  case (Cons j js)
  then have "j < length (active_spheres_' obj)" by simp
  then obtain data where d: "query_entry obj j = Inr data"
    by (cases "length (active_spheres_' obj ! j) = 0") (simp_all add: query_entry_def Let_def)
  have "list_all (\<lambda>j. j < length (active_spheres_' (obj\<lparr>dist_query_' := dist_query_' obj @ [data]\<rparr>))) js"
    using Cons.prems by simp
  from Cons.IH[OF this] show ?case using d by simp
qed

lemma createDefaultDistanceQuery_defined:
  "length (active_spheres_' obj) = length (active_links_' obj) \<Longrightarrow>
   \<exists>obj'. createDefaultDistanceQuery obj = Inr obj'"
  unfolding createDefaultDistanceQuery_def
  by (rule createDefaultDistanceQuery_loop_defined) (simp add: list_all_iff)

text \<open>
  When the \<^verbatim>\<open>erase\<close> calls of \<^verbatim>\<open>createDynamicSDFs\<close> are defined.  Let \<open>S\<close> and \<open>A\<close> be the
  sequences \<^verbatim>\<open>static_links_\<close> and \<^verbatim>\<open>active_links_\<close> as \<^verbatim>\<open>createStaticSDFs\<close> and
  \<^verbatim>\<open>createActiveSDFs\<close> build them, for a model that lists each link with collision
  geometry once.  Every \<^verbatim>\<open>erase\<close> finds its link exactly when no link is twice in \<open>S\<close> and
  no link is in both \<open>S\<close> and \<open>A\<close>; on all other models the constructor erases at
  \<^verbatim>\<open>end()\<close>.  Where the calls are defined the three sequences are free of repetitions,
  pairwise disjoint, and together exactly the links with collision geometry.
\<close>

lemma erase_defined_iff:
  assumes "distinct (getLinkModelsWithCollisionGeometry model)"
  shows "let obj2 = createStaticSDFs (createDefaultAllowedCollisionMatrix
                      (initial_object model voxel_size background exBandWidth inBandWidth));
             S = static_links_' obj2;
             A = active_links_' (createActiveSDFs fws obj2);
             new = CollisionRobotOpenVDB_new fws model voxel_size background exBandWidth inBandWidth
         in ((\<exists>obj. new = Inr obj) \<longleftrightarrow> distinct S \<and> set S \<inter> set A = {}) \<and>
            (\<forall>obj. new = Inr obj \<longrightarrow>
               static_links_' obj = S \<and> active_links_' obj = A \<and>
               distinct (static_links_' obj @ active_links_' obj @ dynamic_links_' obj) \<and>
               set (static_links_' obj @ active_links_' obj @ dynamic_links_' obj)
                 = set (getLinkModelsWithCollisionGeometry model))"
proof -
  define obj2 where "obj2 = createStaticSDFs (createDefaultAllowedCollisionMatrix
                      (initial_object model voxel_size background exBandWidth inBandWidth))"
  define obj3 where "obj3 = createActiveSDFs fws obj2"
  define new where
    "new = CollisionRobotOpenVDB_new fws model voxel_size background exBandWidth inBandWidth"
  have new: "new = (case createDynamicSDFs obj3 of
                      Inl e \<Rightarrow> Inl e | Inr obj4 \<Rightarrow> createDefaultDistanceQuery obj4)"
    by (simp add: new_def CollisionRobotOpenVDB_new_def Let_def obj3_def obj2_def)
  have l2: "links_' obj2 = getLinkModelsWithCollisionGeometry model"
    and s2: "static_links_' obj2 = static_links_' obj3"
    and l3: "links_' obj3 = getLinkModelsWithCollisionGeometry model"
    by (simp_all add: obj3_def obj2_def createActiveSDFs_frame createStaticSDFs_frame
        createDefaultAllowedCollisionMatrix_def Let_def initial_object_def)
  have a0: "active_links_' obj2 = []"
    by (simp add: obj2_def createStaticSDFs_frame createDefaultAllowedCollisionMatrix_def
        Let_def initial_object_def)
  have sub_s: "set (static_links_' obj3) \<subseteq> set (links_' obj3)"
    using createStaticSDFs_static[of "createDefaultAllowedCollisionMatrix
            (initial_object model voxel_size background exBandWidth inBandWidth)"]
    by (simp add: s2[symmetric] l3 obj2_def createDefaultAllowedCollisionMatrix_def Let_def
        initial_object_def)
  have act: "distinct (active_links_' obj3)" "set (active_links_' obj3) \<subseteq> set (links_' obj3)"
    using collect_active_links_distinct[of "[]" "getJointModelGroups (robot_model_' obj2)"
        "links_' obj2"]
    by (simp_all add: obj3_def createActiveSDFs_frame a0 l2)
  have len: "length (active_spheres_' obj3) = length (active_links_' obj3)"
    by (simp add: obj3_def createActiveSDFs_length)
  have part: "static_links_' obj = static_links_' obj3 \<and> active_links_' obj = active_links_' obj3 \<and>
      distinct (static_links_' obj3) \<and> set (static_links_' obj3) \<inter> set (active_links_' obj3) = {} \<and>
      distinct (static_links_' obj @ active_links_' obj @ dynamic_links_' obj) \<and>
      set (static_links_' obj @ active_links_' obj @ dynamic_links_' obj)
        = set (getLinkModelsWithCollisionGeometry model)"
    if c: "new = Inr obj" for obj
  proof -
    from c obtain obj4 where dyn: "createDynamicSDFs obj3 = Inr obj4"
      and q: "createDefaultDistanceQuery obj4 = Inr obj"
      unfolding new by (auto split: sum.splits)
    from dyn obtain d1 d2 where e1: "erase_remove_all (static_links_' obj3) (links_' obj3) = Inr d1"
      and e2: "erase_remove_all (active_links_' obj3) d1 = Inr d2"
      and o4: "obj4 = obj3\<lparr>dynamic_links_' := d2\<rparr>"
      by (auto simp: createDynamicSDFs_def split: sum.splits)
    from erase_remove_all_distinct[OF _ e1] assms l3
    have s: "distinct (static_links_' obj3)" "distinct d1"
      "set d1 = set (links_' obj3) - set (static_links_' obj3)"
      by simp_all
    from erase_remove_all_distinct[OF s(2) e2]
    have a: "set (active_links_' obj3) \<subseteq> set d1" "distinct d2"
      "set d2 = set d1 - set (active_links_' obj3)"
      by simp_all
    from q have fr: "static_links_' obj = static_links_' obj4"
      "active_links_' obj = active_links_' obj4" "dynamic_links_' obj = dynamic_links_' obj4"
      using createDefaultDistanceQuery_loop_frame[of _ obj4 obj]
      by (simp_all add: createDefaultDistanceQuery_def)
    have fields: "static_links_' obj = static_links_' obj3"
      "active_links_' obj = active_links_' obj3" "dynamic_links_' obj = d2"
      using fr o4 by simp_all
    show ?thesis
      unfolding fields using s a act sub_s l3 by auto
  qed
  have completes: "\<exists>obj. new = Inr obj"
    if ok: "distinct (static_links_' obj3)" "set (static_links_' obj3) \<inter> set (active_links_' obj3) = {}"
  proof -
    have dl: "distinct (links_' obj3)" using assms l3 by simp
    from erase_remove_all_defined[OF ok(1) sub_s dl]
    obtain d1 where e1: "erase_remove_all (static_links_' obj3) (links_' obj3) = Inr d1" by blast
    from erase_remove_all_distinct[OF dl e1]
    have d1: "distinct d1" "set d1 = set (links_' obj3) - set (static_links_' obj3)" by simp_all
    have "set (active_links_' obj3) \<subseteq> set d1" using act(2) ok(2) d1(2) by auto
    from erase_remove_all_defined[OF act(1) this d1(1)]
    obtain d2 where e2: "erase_remove_all (active_links_' obj3) d1 = Inr d2" by blast
    have dyn: "createDynamicSDFs obj3 = Inr (obj3\<lparr>dynamic_links_' := d2\<rparr>)"
      by (simp add: createDynamicSDFs_def e1 e2)
    have "length (active_spheres_' (obj3\<lparr>dynamic_links_' := d2\<rparr>))
            = length (active_links_' (obj3\<lparr>dynamic_links_' := d2\<rparr>))"
      using len by simp
    from createDefaultDistanceQuery_defined[OF this]
    show ?thesis unfolding new dyn by simp
  qed
  show ?thesis
    unfolding Let_def obj2_def[symmetric] obj3_def[symmetric] new_def[symmetric] s2
    using part completes by blast
qed

text \<open>
  A model on which the constructor is defined: \<open>base\<close> is fixed to the root, \<open>arm_link\<close>
  is the only link of the group \<open>arm\<close> and \<open>camera\<close> is in no group: one link per role.
\<close>

lemma erase_defined_example:
  "distinct (getLinkModelsWithCollisionGeometry
               (ex_model [1, 2, 3] [(''arm'', [2])] [(0, [1]), (1, [0])])) \<and>
   (\<exists>obj. CollisionRobotOpenVDB_new ex_two_spheres
             (ex_model [1, 2, 3] [(''arm'', [2])] [(0, [1]), (1, [0])]) 1 1 2 2 = Inr obj \<and>
          static_links_' obj = [1] \<and> active_links_' obj = [2] \<and> dynamic_links_' obj = [3] \<and>
          distinct (static_links_' obj @ active_links_' obj @ dynamic_links_' obj) \<and>
          set (static_links_' obj @ active_links_' obj @ dynamic_links_' obj)
            = set (getLinkModelsWithCollisionGeometry
                     (ex_model [1, 2, 3] [(''arm'', [2])] [(0, [1]), (1, [0])])))"
proof -
  have d: "distinct (getLinkModelsWithCollisionGeometry
               (ex_model [1, 2, 3] [(''arm'', [2])] [(0, [1]), (1, [0])]))"
    by (simp add: ex_model_def)
  have "\<exists>obj. CollisionRobotOpenVDB_new ex_two_spheres
             (ex_model [1, 2, 3] [(''arm'', [2])] [(0, [1]), (1, [0])]) 1 1 2 2 = Inr obj \<and>
          static_links_' obj = [1] \<and> active_links_' obj = [2] \<and> dynamic_links_' obj = [3]"
    by (simp add: ctor_defs ex_defs eval_nat_numeral Let_def)
  then obtain obj where c: "CollisionRobotOpenVDB_new ex_two_spheres
             (ex_model [1, 2, 3] [(''arm'', [2])] [(0, [1]), (1, [0])]) 1 1 2 2 = Inr obj"
    and f: "static_links_' obj = [1]" "active_links_' obj = [2]" "dynamic_links_' obj = [3]"
    by blast
  from erase_defined_iff[OF d, of 1 1 2 2 ex_two_spheres] d c f show ?thesis
    unfolding Let_def by blast
qed

text \<open>
  Claim C1.  The three sequences are meant to be a partition of the links with collision
  geometry, and \<^verbatim>\<open>createDynamicSDFs\<close> relies on it: it erases every static and every
  active link from a copy of \<^verbatim>\<open>links_\<close>.  The constructor breaks this for a valid model
  in which \<open>base\<close> is fixed to the root and is also a link of the group \<open>arm\<close>.  After
  \<^verbatim>\<open>createStaticSDFs\<close> and \<^verbatim>\<open>createActiveSDFs\<close> the link is in \<^verbatim>\<open>static_links_\<close> and in
  \<^verbatim>\<open>active_links_\<close>; the loop over the active links no longer finds it, and
  \<^verbatim>\<open>erase(std::remove(...))\<close> erases at \<^verbatim>\<open>end()\<close>.
\<close>

theorem role_overlap_erase_at_end:
  "distinct (getLinkModelsWithCollisionGeometry
               (ex_model [1, 2, 3] [(''arm'', [1, 2])] [(0, [1]), (1, [0])])) \<and>
   static_links_' (createActiveSDFs ex_two_spheres (createStaticSDFs
      (createDefaultAllowedCollisionMatrix
         (ex_robot (ex_model [1, 2, 3] [(''arm'', [1, 2])] [(0, [1]), (1, [0])]))))) = [1] \<and>
   active_links_' (createActiveSDFs ex_two_spheres (createStaticSDFs
      (createDefaultAllowedCollisionMatrix
         (ex_robot (ex_model [1, 2, 3] [(''arm'', [1, 2])] [(0, [1]), (1, [0])]))))) = [1, 2] \<and>
   CollisionRobotOpenVDB_new ex_two_spheres
     (ex_model [1, 2, 3] [(''arm'', [1, 2])] [(0, [1]), (1, [0])]) 1 1 2 2 = Inl EraseAtEnd"
  by (simp add: ctor_defs ex_defs eval_nat_numeral Let_def)

text \<open>
  Claim C10.  The constructor path and the standalone classifier differ when the root has
  collision geometry and a fixed neighbour: the walk of \<^verbatim>\<open>addAssociatedFixedTransforms\<close>
  starts with an empty \<^verbatim>\<open>links_so_far\<close>, meets the root again in the map of its
  neighbour and appends it a second time, while \<^verbatim>\<open>identifyStaticLinks\<close> has the root in
  \<^verbatim>\<open>considered_set\<close> from the start.  In the second model the root has no geometry;
  links 1 and 2 are fixed to the root and link 3 to link 1.  The constructor path walks
  the map of the root a second time from inside the visit of link 1 and reaches link 2
  before link 3; the classifier reaches link 3 first.
\<close>

theorem static_links_divergence:
  "static_links_' (createStaticSDFs (ex_robot (ex_model [0, 1] [] [(0, [1]), (1, [0])])))
     = [0, 1, 0] \<and>
   identifyStaticLinks (ex_robot (ex_model [0, 1] [] [(0, [1]), (1, [0])])) = [0, 1] \<and>
   static_links_' (createStaticSDFs (ex_robot (ex_model [1, 2, 3] []
      [(0, [1, 2, 3]), (1, [0, 3]), (2, [0]), (3, [0, 1])]))) = [1, 2, 3] \<and>
   identifyStaticLinks (ex_robot (ex_model [1, 2, 3] []
      [(0, [1, 2, 3]), (1, [0, 3]), (2, [0]), (3, [0, 1])])) = [1, 3, 2]"
  by (simp add: createStaticSDFs_def addAssociatedFixedTransforms_def identifyStaticLinks_def
      identifyStaticLinksHelper_def hasCollisionGeometry_def getAssociatedFixedTransforms_def ex_defs)

text \<open>The two walks are the same function; the paths differ in the state they start from.\<close>

lemma walks_agree:
  "identifyStaticLinksHelper_loop m geom cs s = addAssociatedFixedTransforms_loop m geom cs s"
  by (induction m geom cs s rule: addAssociatedFixedTransforms_loop.induct) auto

section \<open>Construction: the sphere fit\<close>

lemma attempt_shift: "attempt fill (v * 0.5) (fill v sp) k = attempt fill v sp (Suc k)"
  by (induction k) (simp_all add: mult.assoc)

lemma find_map_option: "find P (map f xs) = map_option f (find (\<lambda>x. P (f x)) xs)"
  by (induction xs) simp_all

lemma find_upt_Suc:
  "find P [0..<Suc n] = (if P 0 then Some 0 else map_option Suc (find (\<lambda>k. P (Suc k)) [0..<n]))"
proof -
  have "[0..<Suc n] = 0 # map Suc [0..<n]"
    by (simp add: upt_conv_Cons map_Suc_upt del: upt_Suc)
  then show ?thesis by (simp add: find_map_option del: upt_Suc)
qed

lemma half_pow_Suc: "v * 0.5 * 0.5 ^ k = v * 0.5 ^ Suc k" for v :: real
  by simp

text \<open>
  The loop stops at the first attempt that leaves more than one sphere in the vector, and
  after \<open>n\<close> attempts otherwise; attempt \<open>k\<close> (from 0) runs at the voxel size \<open>v / 2 ^ k\<close>.
\<close>

lemma sphere_fit_loop_find:
  "sphere_fit_loop n fill v sdf sp =
     (case find (\<lambda>k. 1 < length (attempt fill v sp (Suc k))) [0..<n] of
        Some k \<Rightarrow> (Some (v * 0.5 ^ k), attempt fill v sp (Suc k))
      | None \<Rightarrow> (if n = 0 then sdf else Some (v * 0.5 ^ (n - 1)), attempt fill v sp n))"
proof (induction n arbitrary: v sdf sp)
  case 0
  then show ?case by simp
next
  case (Suc n)
  have first: "attempt fill v sp (Suc 0) = fill v sp" by simp
  show ?case
  proof (cases "1 < length (fill v sp)")
    case True
    then have "find (\<lambda>k. 1 < length (attempt fill v sp (Suc k))) [0..<Suc n] = Some 0"
      unfolding find_upt_Suc first by simp
    moreover have "sphere_fit_loop (Suc n) fill v sdf sp = (Some v, fill v sp)"
      using True by (simp add: Let_def)
    ultimately show ?thesis by simp
  next
    case False
    let ?Q = "\<lambda>k. 1 < length (attempt fill v sp (Suc (Suc k)))"
    have fnd: "find (\<lambda>k. 1 < length (attempt fill v sp (Suc k))) [0..<Suc n]
                 = map_option Suc (find ?Q [0..<n])"
      unfolding find_upt_Suc first using False by simp
    have step: "sphere_fit_loop (Suc n) fill v sdf sp
                  = sphere_fit_loop n fill (v * 0.5) (Some v) (fill v sp)"
      using False by (simp add: Let_def)
    have ih: "sphere_fit_loop n fill (v * 0.5) (Some v) (fill v sp) =
       (case find ?Q [0..<n] of
          Some k \<Rightarrow> (Some (v * 0.5 * 0.5 ^ k), attempt fill v sp (Suc (Suc k)))
        | None \<Rightarrow> (if n = 0 then Some v else Some (v * 0.5 * 0.5 ^ (n - 1)),
                    attempt fill v sp (Suc n)))"
      unfolding Suc.IH attempt_shift ..
    show ?thesis
    proof (cases "find ?Q [0..<n]")
      case None
      then show ?thesis
        unfolding step ih fnd
        by (cases n) (simp_all del: attempt.simps)
    next
      case (Some k)
      then show ?thesis
        unfolding step ih fnd half_pow_Suc
        by (simp del: attempt.simps power_Suc)
    qed
  qed
qed

lemma find_None_upt: "(\<forall>k<n. \<not> P k) \<Longrightarrow> find P [0..<n] = None"
  by (simp add: find_None_iff)

text \<open>
  Claim C8, as amended.  For an active body the sphere fit is repeated at halved voxel
  size, at most 10 times, as long as the vector holds at most one sphere: the stored
  field and approximation are those of the first attempt that leaves more than one
  sphere, or of the tenth attempt.  An error line is written exactly when the stored
  approximation is empty, and then once.  For a body whose vector holds exactly one
  sphere after every attempt, the stored approximation after the 10 attempts is that
  single sphere and no line is written.
\<close>

theorem sphere_fit_retry:
  assumes "i < length (active_spheres_' obj)" and "i < length (active_sdf_' obj)"
  shows "let fill = (\<lambda>v. fws (active_links_' obj ! i) v
                            ((voxel_size_' obj / v) * exBandWidth_' obj)
                            ((voxel_size_' obj / v) * inBandWidth_' obj));
             A = attempt fill (voxel_size_' obj) (active_spheres_' obj ! i);
             r = fit_active_link fws i obj
         in (active_sdf_' r ! i, active_spheres_' r ! i) =
              (case find (\<lambda>k. 1 < length (A (Suc k))) [0..<10] of
                 Some k \<Rightarrow> (Some (voxel_size_' obj * 0.5 ^ k), A (Suc k))
               | None \<Rightarrow> (Some (voxel_size_' obj * 0.5 ^ 9), A 10)) \<and>
            ros_errors r = ros_errors obj @
              (if active_spheres_' r ! i = []
               then [''Unable to generate spheres for link: '' @
                       getName (robot_model_' obj) (active_links_' obj ! i)]
               else []) \<and>
            ((\<forall>k<10. length (A (Suc k)) = 1) \<longrightarrow>
               active_spheres_' r ! i = A 10 \<and> length (active_spheres_' r ! i) = 1 \<and>
               ros_errors r = ros_errors obj)"
proof -
  define fill where "fill = (\<lambda>v. fws (active_links_' obj ! i) v
                            ((voxel_size_' obj / v) * exBandWidth_' obj)
                            ((voxel_size_' obj / v) * inBandWidth_' obj))"
  define A where "A = attempt fill (voxel_size_' obj) (active_spheres_' obj ! i)"
  define r where "r = fit_active_link fws i obj"
  define out where "out = sphere_fit_loop 10 fill (voxel_size_' obj) None (active_spheres_' obj ! i)"
  have out: "out = (case find (\<lambda>k. 1 < length (A (Suc k))) [0..<10] of
                 Some k \<Rightarrow> (Some (voxel_size_' obj * 0.5 ^ k), A (Suc k))
               | None \<Rightarrow> (Some (voxel_size_' obj * 0.5 ^ 9), A 10))"
    unfolding out_def A_def sphere_fit_loop_find
    by (simp del: attempt.simps split: option.splits)
  have r: "r = obj\<lparr>active_spheres_' := (active_spheres_' obj)[i := snd out],
              ros_errors := ros_errors obj @
                (if length (snd out) = 0
                 then [''Unable to generate spheres for link: '' @
                         getName (robot_model_' obj) (active_links_' obj ! i)]
                 else []),
              active_sdf_' := (active_sdf_' obj)[i := fst out]\<rparr>"
    unfolding r_def out_def fill_def fit_active_link_def Let_def
    by (simp add: case_prod_beta)
  have sel: "active_sdf_' r ! i = fst out" "active_spheres_' r ! i = snd out"
    using assms by (simp_all add: r)
  have p1: "(active_sdf_' r ! i, active_spheres_' r ! i) =
              (case find (\<lambda>k. 1 < length (A (Suc k))) [0..<10] of
                 Some k \<Rightarrow> (Some (voxel_size_' obj * 0.5 ^ k), A (Suc k))
               | None \<Rightarrow> (Some (voxel_size_' obj * 0.5 ^ 9), A 10))"
    unfolding sel using out by simp
  have p2: "ros_errors r = ros_errors obj @
              (if active_spheres_' r ! i = []
               then [''Unable to generate spheres for link: '' @
                       getName (robot_model_' obj) (active_links_' obj ! i)]
               else [])"
    unfolding sel by (simp add: r)
  have p3: "active_spheres_' r ! i = A 10 \<and> length (active_spheres_' r ! i) = 1 \<and>
            ros_errors r = ros_errors obj"
    if one: "\<forall>k<10. length (A (Suc k)) = 1"
  proof -
    have "find (\<lambda>k. 1 < length (A (Suc k))) [0..<10] = None"
      by (rule find_None_upt) (use one in auto)
    then have o: "snd out = A 10" using out by simp
    have "(9 :: nat) < 10" by simp
    with one have "length (A (Suc 9)) = 1" by blast
    moreover have "Suc 9 = (10 :: nat)" by simp
    ultimately have len: "length (A 10) = 1" by simp
    show ?thesis using o len p2 sel by auto
  qed
  show ?thesis
    unfolding Let_def fill_def[symmetric] A_def[symmetric] r_def[symmetric]
    using p1 p2 p3 by blast
qed

text \<open>
  The theorem for an active link whose fit leaves exactly one sphere at every attempt: the
  field of the tenth attempt (voxel size \<open>1 / 2 ^ 9\<close>) and the single sphere are stored,
  and nothing is logged.
\<close>

theorem sphere_fit_retry_witness:
  "active_spheres_' (fit_active_link ex_one_sphere 0
      ((ex_robot (ex_model [2] [(''arm'', [2])] []))
         \<lparr>active_links_' := [2], active_sdf_' := [None], active_spheres_' := [[]]\<rparr>)) ! 0
     = [((0, 0, 0), 1)] \<and>
   active_sdf_' (fit_active_link ex_one_sphere 0
      ((ex_robot (ex_model [2] [(''arm'', [2])] []))
         \<lparr>active_links_' := [2], active_sdf_' := [None], active_spheres_' := [[]]\<rparr>)) ! 0
     = Some (1 / 512) \<and>
   ros_errors (fit_active_link ex_one_sphere 0
      ((ex_robot (ex_model [2] [(''arm'', [2])] []))
         \<lparr>active_links_' := [2], active_sdf_' := [None], active_spheres_' := [[]]\<rparr>)) = []"
  using sphere_fit_retry[where i = 0 and fws = ex_one_sphere and obj =
      "(ex_robot (ex_model [2] [(''arm'', [2])] []))
         \<lparr>active_links_' := [2], active_sdf_' := [None], active_spheres_' := [[]]\<rparr>"]
  by (simp add: Let_def ex_defs eval_nat_numeral)

text \<open>
  Claim C8 as stated fails for a link whose fit leaves exactly one sphere at every
  attempt: after \<^verbatim>\<open>createActiveSDFs\<close> the stored approximation is that sphere, not the
  empty set, the stored field is the one of the tenth attempt, and no error line is
  written (the line is written for \<^verbatim>\<open>size() == 0\<close> only).
\<close>

theorem sphere_fit_single_counterexample:
  "active_links_' (createActiveSDFs ex_one_sphere
      (ex_robot (ex_model [1, 2, 3] [(''arm'', [2])] [(0, [1]), (1, [0])]))) = [2] \<and>
   active_spheres_' (createActiveSDFs ex_one_sphere
      (ex_robot (ex_model [1, 2, 3] [(''arm'', [2])] [(0, [1]), (1, [0])]))) = [[((0, 0, 0), 1)]] \<and>
   active_sdf_' (createActiveSDFs ex_one_sphere
      (ex_robot (ex_model [1, 2, 3] [(''arm'', [2])] [(0, [1]), (1, [0])]))) = [Some (1 / 512)] \<and>
   ros_errors (createActiveSDFs ex_one_sphere
      (ex_robot (ex_model [1, 2, 3] [(''arm'', [2])] [(0, [1]), (1, [0])]))) = []"
  by (simp add: ctor_defs ex_defs eval_nat_numeral Let_def)

section \<open>The self-distance query\<close>

lemma distanceSelf_null_group:
  "getJointModelGroup (robot_model_' obj) (group_name rq) = None \<Longrightarrow>
   distanceSelf obj dflt state rq rs = Inl NullGroupDereference"
  by (simp add: distanceSelf_def)

text \<open>
  Claim C5.  For a request that names a group the model does not have, \<^verbatim>\<open>distanceSelf\<close>
  calls a member function through the null pointer that \<^verbatim>\<open>getJointModelGroup\<close> returned;
  there is no check and no diagnostic.  \<^verbatim>\<open>DistanceRequest::enableGroup\<close> guards the same
  lookup with \<^verbatim>\<open>hasJointModelGroup\<close>.
\<close>

theorem distanceSelf_unknown_group:
  "getJointModelGroup (ex_model [2, 3] [(''arm'', [2])] []) ''gripper'' = None \<and>
   distanceSelf (ex_robot (ex_model [2, 3] [(''arm'', [2])] [])) dflt state
     ((ex_request None False)\<lparr>group_name := ''gripper''\<rparr>) rs = Inl NullGroupDereference \<and>
   active_components_only
     (enableGroup (ex_model [2, 3] [(''arm'', [2])] [])
        ((ex_request (Some {2}) False)\<lparr>group_name := ''gripper''\<rparr>)) = None"
  by (simp add: distanceSelf_def enableGroup_def hasJointModelGroup_def getJointModelGroup_def
      ex_defs)

text \<open>
  Claim C6.  When no entry is put into the result map, \<^verbatim>\<open>distanceSelf\<close> dereferences
  \<^verbatim>\<open>res.distance.begin()\<close> of an empty map.  First input: the only group link has no
  collision geometry, so there is no active link.  Second input: the fit of the only
  active link leaves no sphere, so its query entry is marked empty.
\<close>

theorem distanceSelf_empty_result:
  "(\<exists>obj. CollisionRobotOpenVDB_new ex_two_spheres (ex_model [3] [(''arm'', [2])] []) 1 1 2 2
            = Inr obj \<and>
          active_links_' obj = [] \<and> dist_query_' obj = [] \<and>
          distanceSelf obj (ex_entry [] [] 0) ex_state (ex_request None False)
            \<lparr>minimum_distance = ex_entry [] [] 0, distance = [], collision = False\<rparr>
            = Inl MapBeginAtEnd) \<and>
   (\<exists>obj. CollisionRobotOpenVDB_new (\<lambda>l v ex inb sp. []) (ex_model [2, 3] [(''arm'', [2])] [])
            1 1 2 2 = Inr obj \<and>
          active_links_' obj = [2] \<and> active_spheres_' obj = [[]] \<and>
          map empty (dist_query_' obj) = [True] \<and>
          distanceSelf obj (ex_entry [] [] 0) ex_state (ex_request None False)
            \<lparr>minimum_distance = ex_entry [] [] 0, distance = [], collision = False\<rparr>
            = Inl MapBeginAtEnd)"
  by (simp add: ctor_defs distanceSelf_def getJointModelGroup_def ex_defs eval_nat_numeral Let_def)

text \<open>
  Claim C7.  An active link between two children at the same distance whose gradients
  point against each other: both contribute with the weight 0.6, the weighted sum is the
  zero vector while the total weight is 1.2, and the query returns \<^verbatim>\<open>hasGradient\<close> with
  a gradient of length 0, not 1.
\<close>

theorem gradient_cancellation:
  "child_loop 1 ex_query ex_sdfs [0, 1]
     ((ex_entry [] [] 0)\<lparr>min_distance := 1, link_name := (''arm_link'', [])\<rparr>, (0, 0, 0), 0)
     = Inr ((ex_entry ''arm_link'' ''left_wall'' (2 / 5))\<lparr>hasGradient := True\<rparr>, (0, 0, 0), 6 / 5) \<and>
   distanceSelfHelper (ex_robot (ex_model [] [] [])) ex_query ex_sdfs (ex_entry [] [] 0)
     = Inr ((ex_entry ''arm_link'' ''left_wall'' (2 / 5))\<lparr>hasGradient := True, gradient := (0, 0, 0)\<rparr>) \<and>
   vec_norm (0, 0, 0) = 0"
  by (simp add: distanceSelfHelper_def sphere_step_def fold_child_def approxEqual_def vec_sum_def
      vdb_normalize_def vec_norm_def squaredNorm_def vec_scale_def vec_add_def
      eigen_normalize_def Let_def ex_defs)

section \<open>The derived distance information\<close>

text \<open>
  Claim C9.  For an entry whose two identifiers both differ from its key,
  \<^verbatim>\<open>getDistanceInfo\<close> writes the error line, makes the result false and goes on with the
  next entry, but the \<^verbatim>\<open>insert\<close> at the end of the loop body still runs: the output
  map gets the default-constructed \<^verbatim>\<open>DistanceInfo\<close>, none of whose fields was set, under
  the key of that entry.
\<close>

theorem getDistanceInfo_mismatch:
  "getDistanceInfo dflt (\<lambda>p. p)
     [(''a'', ex_entry ''b'' ''c'' 1),
      (''b'', (ex_entry ''b'' ''c'' 2)\<lparr>nearest_points := ((2, 0, 0), (0, 0, 0))\<rparr>)] []
   = (False,
      [(''a'', dflt),
       (''b'', dflt\<lparr>nearest_obsticle := ''c'', link_point := (2, 0, 0),
                    obsticle_point := (0, 0, 0), avoidance_vector := (1, 0, 0),
                    info_distance := 2\<rparr>)],
      [''getDistanceInfo was unable to find link after match!''])"
  by (simp add: getDistanceInfo_def getDistanceInfo_step_def map_insert_def eigen_normalize_def
      vec_sub_def squaredNorm_def vec_scale_def ex_defs)

end
